theory Spec2Isabelle
  imports Main
begin

section \<open>Python values: errors, strings, integers\<close>

text \<open>
  The exceptions the modelled code can raise. Every one of them is caught by the
  \<open>except Exception\<close> of \<open>generate_ics_from_json\<close> (lines 413-415).
  \<open>NotImplementedError\<close> is what \<open>chinese_calendar.is_holiday\<close> raises on a date
  of a year that its data does not cover.
\<close>

datatype error = KeyError | IndexError | OverflowError | NotImplementedError

text \<open>
  Python strings are modelled as HOL strings holding the UTF-8 bytes of the text; the
  Chinese literals of the source are written out as their bytes.
\<close>

definition nl :: string where
  "nl = [CHR 0x0A]"

definition zhou :: string where
  "zhou = [CHR 0xE5, CHR 0x91, CHR 0xA8]"

definition kebiao :: string where
  "kebiao = [CHR 0xE8, CHR 0xAF, CHR 0xBE, CHR 0xE8, CHR 0xA1, CHR 0xA8]"

definition jiaoshi :: string where
  "jiaoshi = [CHR 0xE6, CHR 0x95, CHR 0x99, CHR 0xE5, CHR 0xB8, CHR 0x88, CHR 0xEF, CHR 0xBC, CHR 0x9A]"

text \<open>\<open>str(n)\<close> for an integer: decimal digits, with a minus sign when negative.\<close>

definition digit_char :: "nat \<Rightarrow> char" where
  "digit_char d = ''0123456789'' ! d"

fun digits :: "nat \<Rightarrow> string" where
  "digits n = (if n < 10 then [digit_char n] else digits (n div 10) @ [digit_char (n mod 10)])"

declare digits.simps [simp del]

definition str_int :: "int \<Rightarrow> string" where
  "str_int i = (if i < 0 then CHR ''-'' # digits (nat (- i)) else digits (nat i))"

text \<open>\<open>s.zfill(w)\<close> on a string of digits, as \<open>strftime\<close> pads its fields.\<close>

definition zfill :: "nat \<Rightarrow> string \<Rightarrow> string" where
  "zfill w s = replicate (w - length s) (CHR ''0'') @ s"

text \<open>\<open>xs[i]\<close> on a Python list: a negative index counts from the end.\<close>

definition py_get :: "'a list \<Rightarrow> int \<Rightarrow> error + 'a" where
  "py_get xs i =
     (if 0 \<le> i \<and> i < int (length xs) then Inr (xs ! nat i)
      else if i < 0 \<and> - int (length xs) \<le> i then Inr (xs ! nat (int (length xs) + i))
      else Inl IndexError)"

section \<open>Dates\<close>

text \<open>
  A \<open>datetime\<close> at midnight is modelled by its proleptic Gregorian ordinal
  (\<open>date.toordinal()\<close>: day 1 is 0001-01-01). The conversions follow the
  \<open>datetime\<close> module: \<open>_ymd2ord\<close>, \<open>_ord2ymd\<close>, and the range checks of
  \<open>timedelta\<close> and of \<open>datetime + timedelta\<close>, which raise \<open>OverflowError\<close>.
\<close>

type_synonym date = int

definition is_leap :: "int \<Rightarrow> bool" where
  "is_leap year = (year mod 4 = 0 \<and> (year mod 100 \<noteq> 0 \<or> year mod 400 = 0))"

definition days_before_year :: "int \<Rightarrow> int" where
  "days_before_year year = (let y = year - 1 in y * 365 + y div 4 - y div 100 + y div 400)"

definition DAYS_IN_MONTH :: "int list" where
  "DAYS_IN_MONTH = [- 1, 31, 28, 31, 30, 31, 30, 31, 31, 30, 31, 30, 31]"

definition DAYS_BEFORE_MONTH :: "int list" where
  "DAYS_BEFORE_MONTH = [- 1, 0, 31, 59, 90, 120, 151, 181, 212, 243, 273, 304, 334]"

definition days_before_month :: "int \<Rightarrow> nat \<Rightarrow> int" where
  "days_before_month year month =
     DAYS_BEFORE_MONTH ! month + (if month > 2 \<and> is_leap year then 1 else 0)"

definition ymd2ord :: "int \<Rightarrow> nat \<Rightarrow> int \<Rightarrow> date" where
  "ymd2ord year month day = days_before_year year + days_before_month year month + day"

definition ord2ymd :: "date \<Rightarrow> int \<times> nat \<times> int" where
  "ord2ymd ordinal =
     (let n0 = ordinal - 1;
          n400 = n0 div 146097; n1 = n0 mod 146097;
          n100 = n1 div 36524; n2 = n1 mod 36524;
          n4 = n2 div 1461; n3 = n2 mod 1461;
          n1y = n3 div 365; n = n3 mod 365;
          year = n400 * 400 + 1 + n100 * 100 + n4 * 4 + n1y
      in if n1y = 4 \<or> n100 = 4 then (year - 1, 12, 31)
         else
           let leapyear = (n1y = 3 \<and> (n4 \<noteq> 24 \<or> n100 = 3));
               month = nat ((n + 50) div 32);
               preceding = DAYS_BEFORE_MONTH ! month + (if month > 2 \<and> leapyear then 1 else 0)
           in if preceding > n
              then let month' = month - 1;
                       preceding' = preceding - (DAYS_IN_MONTH ! month' + (if month' = 2 \<and> leapyear then 1 else 0))
                   in (year, month', n - preceding' + 1)
              else (year, month, n - preceding + 1))"

text \<open>
  \<open>d.strftime("%Y%m%d")\<close>. The month and the day are padded to two digits; the year
  is printed by the C library, which (glibc) does not pad it: year 999 gives \<open>9990107\<close>.
\<close>

definition strftime_Ymd :: "date \<Rightarrow> string" where
  "strftime_Ymd d =
     (case ord2ymd d of (y, m, dd) \<Rightarrow>
        str_int y @ zfill 2 (str_int (int m)) @ zfill 2 (str_int dd))"

definition MAXORDINAL :: int where
  "MAXORDINAL = 3652059"

text \<open>\<open>timedelta(days=n)\<close>: the magnitude of the days is at most 999999999.\<close>

definition timedelta :: "int \<Rightarrow> error + int" where
  "timedelta days = (if - 999999999 \<le> days \<and> days \<le> 999999999 then Inr days else Inl OverflowError)"

text \<open>\<open>d + timedelta(days=n)\<close>: the result lies between 0001-01-01 and 9999-12-31.\<close>

definition date_add :: "date \<Rightarrow> int \<Rightarrow> error + date" where
  "date_add d days =
     (case timedelta days of
        Inl e \<Rightarrow> Inl e
      | Inr n \<Rightarrow> if 1 \<le> d + n \<and> d + n \<le> MAXORDINAL then Inr (d + n) else Inl OverflowError)"

section \<open>Recurrence classification and first occurrence (lines 309-335)\<close>

text \<open>
  \<open>week_status\<close> is 1 for odd weeks only (ODD_WEEKS), 2 for even weeks only
  (EVEN_WEEKS) and 0 for every week (EVERY_WEEK), lines 314-323.
\<close>

definition EVERY_WEEK :: int where "EVERY_WEEK = 0"
definition ODD_WEEKS :: int where "ODD_WEEKS = 1"
definition EVEN_WEEKS :: int where "EVEN_WEEKS = 2"

definition week_status :: "int list \<Rightarrow> int" where
  "week_status weeks =
     (let is_odd = list_all (\<lambda>w. w mod 2 = 1) weeks;
          is_even = list_all (\<lambda>w. w mod 2 = 0) weeks
      in if is_odd then 1 else if is_even then 2 else 0)"

text \<open>Lines 325-333: the day offset of the first occurrence from the anchor date.\<close>

definition delta_time :: "int \<Rightarrow> int \<Rightarrow> int \<Rightarrow> int" where
  "delta_time status start_week day =
     (let d = 7 * (start_week - 1) + day - 1
      in if status = 1 then (if start_week mod 2 = 0 then d + 7 else d)
         else if status = 2 then (if start_week mod 2 \<noteq> 0 then d + 7 else d)
         else d)"

text \<open>
  Lines 310-312 and 335: \<open>weeks.sort()\<close>, \<open>start_week = weeks[0]\<close>,
  \<open>end_week = weeks[-1]\<close>; the caller has checked that \<open>weeks\<close> is not empty.
\<close>

definition start_week :: "int list \<Rightarrow> int" where
  "start_week weeks = hd (sort weeks)"

definition end_week :: "int list \<Rightarrow> int" where
  "end_week weeks = last (sort weeks)"

definition first_time_obj :: "date \<Rightarrow> int \<Rightarrow> int list \<Rightarrow> error + date" where
  "first_time_obj initial_time day weeks =
     date_add initial_time (delta_time (week_status weeks) (start_week weeks) day)"

section \<open>Holiday exclusion (lines 337-354)\<close>

text \<open>
  The fixed period timetable, lines 253-264: a dictionary keyed by the period number as
  a string. A missing key raises \<open>KeyError\<close>.
\<close>

record period_times =
  startTime :: string
  endTime :: string

definition class_timetable :: "(string \<times> period_times) list" where
  "class_timetable =
     [(''1'', \<lparr>startTime = ''080000'', endTime = ''084000''\<rparr>),
      (''2'', \<lparr>startTime = ''085000'', endTime = ''093000''\<rparr>),
      (''3'', \<lparr>startTime = ''100000'', endTime = ''104000''\<rparr>),
      (''4'', \<lparr>startTime = ''105000'', endTime = ''113000''\<rparr>),
      (''5'', \<lparr>startTime = ''133000'', endTime = ''141000''\<rparr>),
      (''6'', \<lparr>startTime = ''142000'', endTime = ''150000''\<rparr>),
      (''7'', \<lparr>startTime = ''153000'', endTime = ''161000''\<rparr>),
      (''8'', \<lparr>startTime = ''162000'', endTime = ''170000''\<rparr>),
      (''9'', \<lparr>startTime = ''180000'', endTime = ''184000''\<rparr>),
      (''10'', \<lparr>startTime = ''185000'', endTime = ''193000''\<rparr>)]"

definition timetable_lookup :: "string \<Rightarrow> error + period_times" where
  "timetable_lookup k = (case map_of class_timetable k of None \<Rightarrow> Inl KeyError | Some t \<Rightarrow> Inr t)"

text \<open>
  The loop of lines 339-354 over \<open>range(start_week, end_week + 1)\<close>, with the list
  \<open>exclude_dates\<close> as accumulator. The holiday oracle \<open>is_holiday\<close> is the function
  of the package \<open>chinese_calendar\<close>, a parameter of the model: on a date it answers
  \<open>True\<close> or \<open>False\<close>, or raises (\<open>NotImplementedError\<close> outside the years of its
  data). \<open>first\<close> is \<open>first_time_obj\<close>, \<open>start\<close> is \<open>start_week\<close>, \<open>sec0\<close> is
  \<open>sections[0]\<close>.
\<close>

fun exclude_dates_loop ::
  "(date \<Rightarrow> error + bool) \<Rightarrow> int \<Rightarrow> date \<Rightarrow> int \<Rightarrow> int \<Rightarrow> int list \<Rightarrow> string list \<Rightarrow> error + string list" where
  "exclude_dates_loop is_holiday status first start sec0 [] acc = Inr acc"
| "exclude_dates_loop is_holiday status first start sec0 (week_num # rest) acc =
     (if status = 1 \<and> week_num mod 2 = 0 then
        exclude_dates_loop is_holiday status first start sec0 rest acc
      else if status = 2 \<and> week_num mod 2 = 1 then
        exclude_dates_loop is_holiday status first start sec0 rest acc
      else
        (case date_add first (7 * (week_num - start)) of
           Inl e \<Rightarrow> Inl e
         | Inr class_date \<Rightarrow>
             (case is_holiday class_date of
                Inl e \<Rightarrow> Inl e
              | Inr holiday \<Rightarrow>
                  if holiday then
                    (case timetable_lookup (str_int sec0) of
                       Inl e \<Rightarrow> Inl e
                     | Inr t \<Rightarrow>
                         exclude_dates_loop is_holiday status first start sec0 rest
                           (acc @ [strftime_Ymd class_date @ ''T'' @ startTime t]))
                  else exclude_dates_loop is_holiday status first start sec0 rest acc)))"

definition exclude_dates ::
  "(date \<Rightarrow> error + bool) \<Rightarrow> int \<Rightarrow> date \<Rightarrow> int \<Rightarrow> int \<Rightarrow> int \<Rightarrow> error + string list" where
  "exclude_dates is_holiday status first start end sec0 =
     exclude_dates_loop is_holiday status first start sec0 [start..end] []"

text \<open>
  The exclusion list of one session, from the anchor date: lines 309-354 together.
\<close>

definition session_exclude_dates ::
  "(date \<Rightarrow> error + bool) \<Rightarrow> date \<Rightarrow> int \<Rightarrow> int \<Rightarrow> int list \<Rightarrow> error + string list" where
  "session_exclude_dates is_holiday initial_time day sec0 weeks =
     (case first_time_obj initial_time day weeks of
        Inl e \<Rightarrow> Inl e
      | Inr first \<Rightarrow>
          exclude_dates is_holiday (week_status weeks) first (start_week weeks) (end_week weeks) sec0)"

section \<open>The structured export (lines 39-68)\<close>

text \<open>
  A course as \<open>parse_course_info\<close> builds it (lines 162-169). \<open>sections\<close> is always
  the two-element list of \<open>sections_to_array\<close>, modelled as a pair.
\<close>

record course_info =
  c_name :: string
  c_teacher :: string
  c_weeks :: "int list"
  c_position :: string
  c_sections :: "int \<times> int"
  c_day :: int

text \<open>A record of the JSON file (lines 53-63).\<close>

record formatted_course =
  j_name :: string
  j_teacher :: string
  j_time :: string
  j_sections :: string
  j_weeks :: string
  j_weeks_array :: "int list"
  j_position :: string
  j_day :: int
  j_section_array :: "int \<times> int"

definition sections_to_array :: "int \<Rightarrow> int \<times> int" where
  "sections_to_array section = (section, section + 1)"

text \<open>\<open>sep.join(xs)\<close>.\<close>

fun join :: "string \<Rightarrow> string list \<Rightarrow> string" where
  "join sep [] = []"
| "join sep [x] = x"
| "join sep (x # y # ys) = x @ sep @ join sep (y # ys)"

text \<open>
  \<open>s.replace(old, new)\<close> for a non-empty \<open>old\<close>: the occurrences are replaced from
  left to right, without overlap.
\<close>

function replace :: "string \<Rightarrow> string \<Rightarrow> string \<Rightarrow> string" where
  "replace old new [] = []"
| "replace old new (c # cs) =
     (if old \<noteq> [] \<and> take (length old) (c # cs) = old
      then new @ replace old new (drop (length old) (c # cs))
      else c # replace old new cs)"
  by pat_completeness auto
termination
  by (relation "measure (\<lambda>(old, new, s). length s)") (auto simp: neq_Nil_conv)

definition weekday_names :: "string list" where
  "weekday_names =
     [zhou @ [CHR 0xE4, CHR 0xB8, CHR 0x80], zhou @ [CHR 0xE4, CHR 0xBA, CHR 0x8C],
      zhou @ [CHR 0xE4, CHR 0xB8, CHR 0x89], zhou @ [CHR 0xE5, CHR 0x9B, CHR 0x9B],
      zhou @ [CHR 0xE4, CHR 0xBA, CHR 0x94], zhou @ [CHR 0xE5, CHR 0x85, CHR 0xAD],
      zhou @ [CHR 0xE6, CHR 0x97, CHR 0xA5]]"

definition xingqi :: string where
  "xingqi = [CHR 0xE6, CHR 0x98, CHR 0x9F, CHR 0xE6, CHR 0x9C, CHR 0x9F]"

definition di :: string where
  "di = [CHR 0xE7, CHR 0xAC, CHR 0xAC]"

definition jie :: string where
  "jie = [CHR 0xE8, CHR 0x8A, CHR 0x82]"

definition format_course :: "course_info \<Rightarrow> formatted_course" where
  "format_course course =
     (let day_name = (if 1 \<le> c_day course \<and> c_day course \<le> 7
                      then weekday_names ! nat (c_day course - 1)
                      else xingqi @ str_int (c_day course));
          sections_str = di @ str_int (fst (c_sections course)) @ ''-''
                            @ str_int (snd (c_sections course)) @ jie;
          weeks_str = di @ join '','' (map str_int (c_weeks course)) @ zhou;
          position = replace nl ''-'' (c_position course)
      in \<lparr>j_name = c_name course, j_teacher = c_teacher course, j_time = day_name,
          j_sections = sections_str, j_weeks = weeks_str, j_weeks_array = c_weeks course,
          j_position = position, j_day = c_day course, j_section_array = c_sections course\<rparr>)"

text \<open>
  \<open>save_courses_to_json\<close> returns the list of records it writes; \<open>json.dump\<close> followed
  by \<open>json.load\<close> gives the same list back.
\<close>

definition save_courses_to_json :: "course_info list \<Rightarrow> formatted_course list" where
  "save_courses_to_json courses = map format_course courses"

section \<open>Calendar generation (lines 232-418)\<close>

definition ical_begin_base :: string where
  "ical_begin_base =
     ''BEGIN:VCALENDAR'' @ nl @
     ''VERSION:2.0'' @ nl @
     ''X-WR-CALNAME:'' @ kebiao @ nl @
     ''X-APPLE-CALENDAR-COLOR:#FF2968'' @ nl @
     ''X-WR-TIMEZONE:Asia/Shanghai'' @ nl @
     ''BEGIN:VTIMEZONE'' @ nl @
     ''TZID:Asia/Shanghai'' @ nl @
     ''X-LIC-LOCATION:Asia/Shanghai'' @ nl @
     ''BEGIN:STANDARD'' @ nl @
     ''TZOFFSETFROM:+0800'' @ nl @
     ''TZOFFSETTO:+0800'' @ nl @
     ''TZNAME:CST'' @ nl @
     ''DTSTART:19700101T000000'' @ nl @
     ''END:STANDARD'' @ nl @
     ''END:VTIMEZONE'' @ nl"

definition ical_end :: string where
  "ical_end = nl @ ''END:VCALENDAR''"

definition weekdays :: "string list" where
  "weekdays = [''MO'', ''TU'', ''WE'', ''TH'', ''FR'', ''SA'', ''SU'']"

definition a_trigger :: "int \<Rightarrow> string" where
  "a_trigger alarm_minutes = (if alarm_minutes > 0 then ''-PT'' @ str_int alarm_minutes @ ''M'' else [])"

definition exdate_str :: "string list \<Rightarrow> string" where
  "exdate_str excl = (if excl \<noteq> [] then ''EXDATE;TZID=Asia/Shanghai:'' @ join '','' excl @ nl else [])"

definition extra_status :: "int \<Rightarrow> int \<Rightarrow> error + string" where
  "extra_status status day =
     (if status = 0 then Inr ''1''
      else case py_get weekdays (day - 1) of
             Inl e \<Rightarrow> Inl e
           | Inr wd \<Rightarrow> Inr (''2;BYDAY='' @ wd))"

definition alarm_base :: "string \<Rightarrow> string \<Rightarrow> string \<Rightarrow> string" where
  "alarm_base trigger uid1 uid2 =
     ''BEGIN:VALARM'' @ nl @
     ''ACTION:DISPLAY'' @ nl @
     ''DESCRIPTION:This is an event reminder'' @ nl @
     ''TRIGGER:'' @ trigger @ nl @
     ''X-WR-ALARMUID:'' @ uid1 @ nl @
     ''UID:'' @ uid2 @ nl @
     ''END:VALARM'' @ nl"

definition ical_base ::
  "string \<Rightarrow> formatted_course \<Rightarrow> string \<Rightarrow> string \<Rightarrow> string \<Rightarrow> string \<Rightarrow> string \<Rightarrow> string \<Rightarrow> string \<Rightarrow> string" where
  "ical_base utc_now course uid3 exdate stop_time_str extra final_stime_str final_etime_str alarm =
     ''BEGIN:VEVENT'' @ nl @
     ''CREATED:'' @ utc_now @ nl @
     ''DTSTAMP:'' @ utc_now @ nl @
     ''SUMMARY:'' @ j_name course @ nl @
     ''DESCRIPTION:'' @ jiaoshi @ j_teacher course @ nl @
     ''LOCATION:'' @ j_position course @ nl @
     ''TZID:Asia/Shanghai'' @ nl @
     ''SEQUENCE:0'' @ nl @
     ''UID:'' @ uid3 @ nl @
     exdate @ ''RRULE:FREQ=WEEKLY;UNTIL='' @ stop_time_str @ '';INTERVAL='' @ extra @ nl @
     ''DTSTART;TZID=Asia/Shanghai:'' @ final_stime_str @ nl @
     ''DTEND;TZID=Asia/Shanghai:'' @ final_etime_str @ nl @
     ''X-APPLE-TRAVEL-ADVISORY-BEHAVIOR:AUTOMATIC'' @ nl @
     alarm @ ''END:VEVENT'' @ nl"

text \<open>
  One iteration of the loop over the courses (lines 302-407) for a course whose
  \<open>weeks\<close> is not empty. \<open>uid\<close> is the stream of fresh identifiers and \<open>n\<close> the
  number of identifiers drawn so far; the result is the event block and the new count,
  or the exception raised before anything of the event is written.
\<close>

definition course_event ::
  "(nat \<Rightarrow> string) \<Rightarrow> string \<Rightarrow> (date \<Rightarrow> error + bool) \<Rightarrow> date \<Rightarrow> int \<Rightarrow> formatted_course \<Rightarrow> nat
     \<Rightarrow> error + (string \<times> nat)" where
  "course_event uid utc_now is_holiday initial_time alarm_minutes course n =
     (let day = j_day course; sections = j_section_array course; weeks = j_weeks_array course;
          status = week_status weeks
      in case first_time_obj initial_time day weeks of
           Inl e \<Rightarrow> Inl e
         | Inr first \<Rightarrow>
       (case exclude_dates is_holiday status first (start_week weeks) (end_week weeks) (fst sections) of
           Inl e \<Rightarrow> Inl e
         | Inr excl \<Rightarrow>
       (case extra_status status day of
           Inl e \<Rightarrow> Inl e
         | Inr extra \<Rightarrow>
       (case timetable_lookup (str_int (fst sections)) of
           Inl e \<Rightarrow> Inl e
         | Inr ts \<Rightarrow>
       (case timetable_lookup (str_int (snd sections)) of
           Inl e \<Rightarrow> Inl e
         | Inr te \<Rightarrow>
       (case date_add first (7 * (end_week weeks - start_week weeks) + 1) of
           Inl e \<Rightarrow> Inl e
         | Inr stop_time_obj \<Rightarrow>
             let final_stime_str = strftime_Ymd first @ ''T'' @ startTime ts;
                 final_etime_str = strftime_Ymd first @ ''T'' @ endTime te;
                 stop_time_str = strftime_Ymd stop_time_obj @ ''T000000Z'';
                 trigger = a_trigger alarm_minutes
             in if trigger \<noteq> []
                then Inr (ical_base utc_now course (uid (n + 2)) (exdate_str excl) stop_time_str extra
                            final_stime_str final_etime_str
                            (alarm_base trigger (uid n) (uid (n + 1))), n + 3)
                else Inr (ical_base utc_now course (uid n) (exdate_str excl) stop_time_str extra
                            final_stime_str final_etime_str [], n + 1)))))))"

text \<open>
  The loop of lines 301-408 on the open file: \<open>f\<close> is what has been written so far.
  A course with no weeks is skipped (lines 306-307); an exception leaves the loop with
  the file as it is.
\<close>

fun write_courses ::
  "(nat \<Rightarrow> string) \<Rightarrow> string \<Rightarrow> (date \<Rightarrow> error + bool) \<Rightarrow> date \<Rightarrow> int \<Rightarrow> formatted_course list \<Rightarrow> string \<Rightarrow> nat
     \<Rightarrow> string \<times> (error + nat)" where
  "write_courses uid utc_now is_holiday initial_time alarm_minutes [] f n = (f, Inr n)"
| "write_courses uid utc_now is_holiday initial_time alarm_minutes (course # rest) f n =
     (if j_weeks_array course = [] then
        write_courses uid utc_now is_holiday initial_time alarm_minutes rest f n
      else
        (case course_event uid utc_now is_holiday initial_time alarm_minutes course n of
           Inl e \<Rightarrow> (f, Inl e)
         | Inr (ev, n') \<Rightarrow>
             write_courses uid utc_now is_holiday initial_time alarm_minutes rest (f @ ev) n'))"

text \<open>
  The outcome of a run: the content of the output file when the run has opened it, and
  the returned file name (\<open>None\<close> for the \<open>return\<close> of line 240 and the
  \<open>return None\<close> of line 415).
\<close>

record ics_run =
  file_content :: "string option"
  returned :: "string option"

text \<open>
  \<open>generate_ics_from_json\<close> from line 238 on, on the loaded list \<open>courses\<close> and the
  anchor date \<open>initial_time\<close> that \<open>strptime\<close> has parsed (line 247). The file is
  opened for writing at line 297, and closed by the \<open>with\<close> statement when an
  exception leaves it, keeping what was written.
\<close>

definition generate_ics_from_json ::
  "(nat \<Rightarrow> string) \<Rightarrow> string \<Rightarrow> (date \<Rightarrow> error + bool) \<Rightarrow> formatted_course list \<Rightarrow> date \<Rightarrow> int \<Rightarrow> ics_run" where
  "generate_ics_from_json uid utc_now is_holiday courses initial_time alarm_minutes =
     (if courses = [] then \<lparr>file_content = None, returned = None\<rparr>
      else
        (case write_courses uid utc_now is_holiday initial_time alarm_minutes courses ical_begin_base 0 of
           (f, Inl e) \<Rightarrow> \<lparr>file_content = Some f, returned = None\<rparr>
         | (f, Inr n) \<Rightarrow>
             \<lparr>file_content = Some (f @ ical_end), returned = Some (kebiao @ ''-'' @ utc_now @ ''.ics'')\<rparr>))"

section \<open>The exclusion set as the specification words it\<close>

text \<open>
  The occurrence date of a session in week \<open>w\<close>: the anchor date is the Monday of
  week 1. The pattern of a list of weeks is ODD_WEEKS when all of them are odd, EVEN_WEEKS
  when all of them are even, EVERY_WEEK otherwise; a candidate week is a week between the
  least and the greatest whose parity agrees with the pattern. The exclusion set lists, in
  the order of the weeks from the least to the greatest, the timestamps of the candidate
  weeks on whose occurrence date the holiday oracle answers true. \<open>period_start\<close> is
  the start clock time of each of the ten periods, and \<open>start_clock\<close> that of the
  session's first period (empty when the timetable has no such period).
\<close>

definition occurrence_date :: "date \<Rightarrow> int \<Rightarrow> int \<Rightarrow> date" where
  "occurrence_date anchor day w = anchor + (7 * (w - 1) + (day - 1))"

definition pattern_spec :: "int list \<Rightarrow> int" where
  "pattern_spec weeks =
     (if \<forall>w \<in> set weeks. odd w then ODD_WEEKS
      else if \<forall>w \<in> set weeks. even w then EVEN_WEEKS
      else EVERY_WEEK)"

definition candidate_week :: "int \<Rightarrow> int \<Rightarrow> bool" where
  "candidate_week status w =
     (if status = ODD_WEEKS then odd w else if status = EVEN_WEEKS then even w else True)"

definition candidate_weeks :: "int list \<Rightarrow> int list" where
  "candidate_weeks weeks =
     filter (candidate_week (pattern_spec weeks)) [Min (set weeks)..Max (set weeks)]"

definition period_start :: "int \<Rightarrow> string option" where
  "period_start p =
     (if p = 1 then Some ''080000'' else if p = 2 then Some ''085000''
      else if p = 3 then Some ''100000'' else if p = 4 then Some ''105000''
      else if p = 5 then Some ''133000'' else if p = 6 then Some ''142000''
      else if p = 7 then Some ''153000'' else if p = 8 then Some ''162000''
      else if p = 9 then Some ''180000'' else if p = 10 then Some ''185000''
      else None)"

definition start_clock :: "int \<Rightarrow> string" where
  "start_clock sec0 = (case period_start sec0 of None \<Rightarrow> [] | Some t \<Rightarrow> t)"

definition excluded_weeks :: "(date \<Rightarrow> error + bool) \<Rightarrow> date \<Rightarrow> int \<Rightarrow> int list \<Rightarrow> int list" where
  "excluded_weeks is_holiday anchor day weeks =
     filter (\<lambda>w. is_holiday (occurrence_date anchor day w) = Inr True) (candidate_weeks weeks)"

definition exclusion_spec ::
  "(date \<Rightarrow> error + bool) \<Rightarrow> date \<Rightarrow> int \<Rightarrow> int \<Rightarrow> int list \<Rightarrow> string list" where
  "exclusion_spec is_holiday anchor day sec0 weeks =
     map (\<lambda>w. strftime_Ymd (occurrence_date anchor day w) @ ''T'' @ start_clock sec0)
       (excluded_weeks is_holiday anchor day weeks)"

text \<open>
  Three holiday oracles for the examples. \<open>holidays_2023\<close> knows 2023-09-29 and
  2023-10-06 (days 738792 and 738799). \<open>holidays_to_2026\<close> has data up to 2026-12-31
  (day 739981), with 2026-10-01 (day 739890) as a holiday, and raises afterwards.
  \<open>holiday_every_day\<close> answers true on every date.
\<close>

definition holidays_2023 :: "date \<Rightarrow> error + bool" where
  "holidays_2023 d = Inr (d = 738792 \<or> d = 738799)"

definition holidays_to_2026 :: "date \<Rightarrow> error + bool" where
  "holidays_to_2026 d = (if d \<le> 739981 then Inr (d = 739890) else Inl NotImplementedError)"

definition holiday_every_day :: "date \<Rightarrow> error + bool" where
  "holiday_every_day d = Inr True"

text \<open>
  A stream of identifiers and a course for the examples: weeks 1 and 2 on Mondays, periods
  1 and 2, in room 101 of the building \<open>Gym\<close>.
\<close>

definition example_uid :: "nat \<Rightarrow> string" where
  "example_uid n = ''uid'' @ digits n"

definition example_course :: course_info where
  "example_course =
     \<lparr>c_name = ''PE'', c_teacher = ''Li'', c_weeks = [1, 2],
      c_position = ''Gym'' @ nl @ ''101'', c_sections = (1, 2), c_day = 1\<rparr>"

text \<open>The event block of this course from the anchor 2023-09-04, with identifier \<open>u\<close>.\<close>

definition example_event :: "string \<Rightarrow> string" where
  "example_event u =
     ''BEGIN:VEVENT'' @ nl @
     ''CREATED:20230901T000000Z'' @ nl @
     ''DTSTAMP:20230901T000000Z'' @ nl @
     ''SUMMARY:PE'' @ nl @
     ''DESCRIPTION:'' @ jiaoshi @ ''Li'' @ nl @
     ''LOCATION:Gym-101'' @ nl @
     ''TZID:Asia/Shanghai'' @ nl @
     ''SEQUENCE:0'' @ nl @
     ''UID:'' @ u @ nl @
     ''RRULE:FREQ=WEEKLY;UNTIL=20230912T000000Z;INTERVAL=1'' @ nl @
     ''DTSTART;TZID=Asia/Shanghai:20230904T080000'' @ nl @
     ''DTEND;TZID=Asia/Shanghai:20230904T093000'' @ nl @
     ''X-APPLE-TRAVEL-ADVISORY-BEHAVIOR:AUTOMATIC'' @ nl @
     ''END:VEVENT'' @ nl"

section \<open>Helper lemmas\<close>

lemma hd_sort_Min: "xs \<noteq> [] \<Longrightarrow> hd (sort xs) = Min (set xs)"
proof -
  assume ne: "xs \<noteq> []"
  then have ne': "sort xs \<noteq> []" by (metis length_0_conv length_sort)
  have "sorted (sort xs)" by simp
  then have "\<forall>x \<in> set (sort xs). hd (sort xs) \<le> x"
    using ne' by (cases "sort xs") auto
  moreover have "hd (sort xs) \<in> set (sort xs)" using ne' by (rule hd_in_set)
  ultimately show ?thesis
    by (metis List.finite_set Min_eqI set_sort)
qed

lemma last_sort_Max: "xs \<noteq> [] \<Longrightarrow> last (sort xs) = Max (set xs)"
proof -
  assume ne: "xs \<noteq> []"
  then have ne': "sort xs \<noteq> []" by (metis length_0_conv length_sort)
  have "sorted (sort xs)" by simp
  then have "\<forall>x \<in> set (sort xs). x \<le> last (sort xs)"
    using ne' by (metis in_set_conv_nth last_conv_nth sorted_nth_mono Suc_pred' length_greater_0_conv less_Suc_eq_le order_refl)
  moreover have "last (sort xs) \<in> set (sort xs)" using ne' by (rule last_in_set)
  ultimately show ?thesis
    by (metis List.finite_set Max_eqI set_sort)
qed

lemma start_week_Min: "weeks \<noteq> [] \<Longrightarrow> start_week weeks = Min (set weeks)"
  by (simp add: start_week_def hd_sort_Min)

lemma end_week_Max: "weeks \<noteq> [] \<Longrightarrow> end_week weeks = Max (set weeks)"
  by (simp add: end_week_def last_sort_Max)

lemma start_week_mem: "weeks \<noteq> [] \<Longrightarrow> start_week weeks \<in> set weeks"
  by (simp add: start_week_Min)

lemma week_status_odd_iff: "week_status weeks = 1 \<longleftrightarrow> (\<forall>w \<in> set weeks. odd w)"
  by (auto simp: week_status_def list_all_iff odd_iff_mod_2_eq_one)

lemma week_status_even_iff:
  "weeks \<noteq> [] \<Longrightarrow> week_status weeks = 2 \<longleftrightarrow> (\<forall>w \<in> set weeks. even w)"
  by (cases weeks) (auto simp: week_status_def list_all_iff even_iff_mod_2_eq_zero odd_iff_mod_2_eq_one)

lemma delta_time_unshifted:
  assumes "weeks \<noteq> []"
  shows "delta_time (week_status weeks) (start_week weeks) day
           = 7 * (start_week weeks - 1) + (day - 1)"
proof -
  have mem: "start_week weeks \<in> set weeks" using assms by (rule start_week_mem)
  have o: "week_status weeks = 1 \<Longrightarrow> start_week weeks mod 2 = 1"
    using mem by (auto simp: week_status_odd_iff odd_iff_mod_2_eq_one)
  have e: "week_status weeks = 2 \<Longrightarrow> start_week weeks mod 2 = 0"
    using mem assms by (auto simp: week_status_even_iff even_iff_mod_2_eq_zero)
  show ?thesis
    using o e by (auto simp: delta_time_def Let_def)
qed

lemma date_add_Inr_iff:
  "date_add d n = Inr r \<longleftrightarrow>
     (r = d + n \<and> - 999999999 \<le> n \<and> n \<le> 999999999 \<and> 1 \<le> d + n \<and> d + n \<le> MAXORDINAL)"
  by (auto simp: date_add_def timedelta_def)

subsection \<open>The pattern and the timetable as the specification words them\<close>

lemma week_status_pattern_spec: "week_status weeks = pattern_spec weeks"
  by (auto simp: week_status_def pattern_spec_def list_all_iff ODD_WEEKS_def EVEN_WEEKS_def
        EVERY_WEEK_def odd_iff_mod_2_eq_one even_iff_mod_2_eq_zero)

lemma digit_cases:
  "d < 10 \<Longrightarrow> d = 0 \<or> d = 1 \<or> d = 2 \<or> d = 3 \<or> d = 4 \<or> d = 5 \<or> d = 6 \<or> d = 7 \<or> d = 8 \<or> d = (9::nat)"
  by arith

lemma of_char_digit_char: "d < 10 \<Longrightarrow> (of_char (digit_char d) :: nat) = 48 + d"
  using digit_cases [of d] by (auto simp: digit_char_def)

lemma digits_value: "foldl (\<lambda>a c. 10 * a + (of_char c - 48)) (0::nat) (digits n) = n"
proof (induction n rule: digits.induct)
  case (1 n)
  show ?case
  proof (cases "n < 10")
    case True
    then show ?thesis by (simp add: digits.simps [of n] of_char_digit_char)
  next
    case False
    with 1 have "foldl (\<lambda>a c. 10 * a + (of_char c - 48)) (0::nat) (digits (n div 10)) = n div 10"
      by simp
    with False show ?thesis
      by (simp add: digits.simps [of n] of_char_digit_char)
  qed
qed

lemma digits_eq_imp: "digits n = s \<Longrightarrow> n = foldl (\<lambda>a c. 10 * a + (of_char c - 48)) (0::nat) s"
  using digits_value [of n] by simp

lemma map_of_timetable_digits:
  "map_option startTime (map_of class_timetable (digits n)) = period_start (int n)"
proof (cases "1 \<le> n \<and> n \<le> 10")
  case True
  then have "n = 10 \<or> n = 9 \<or> n = 8 \<or> n = 7 \<or> n = 6 \<or> n = 5 \<or> n = 4 \<or> n = 3 \<or> n = 2 \<or> n = 1"
    by arith
  then show ?thesis
    by (elim disjE) (simp_all add: class_timetable_def period_start_def digits.simps digit_char_def)
next
  case False
  have "digits n \<notin> fst ` set class_timetable"
  proof
    assume "digits n \<in> fst ` set class_timetable"
    then have "digits n = ''10'' \<or> digits n = ''9'' \<or> digits n = ''8'' \<or> digits n = ''7''
       \<or> digits n = ''6'' \<or> digits n = ''5'' \<or> digits n = ''4'' \<or> digits n = ''3''
       \<or> digits n = ''2'' \<or> digits n = ''1''"
      by (auto simp: class_timetable_def)
    then have "n = 10 \<or> n = 9 \<or> n = 8 \<or> n = 7 \<or> n = 6 \<or> n = 5 \<or> n = 4 \<or> n = 3 \<or> n = 2 \<or> n = 1"
      by (elim disjE) (drule digits_eq_imp, simp)+
    with False show False by arith
  qed
  then have "map_of class_timetable (digits n) = None"
    by (simp add: map_of_eq_None_iff)
  with False show ?thesis
    by (auto simp: period_start_def)
qed

lemma timetable_start:
  "map_option startTime (map_of class_timetable (str_int p)) = period_start p"
proof (cases "p < 0")
  case True
  then have "map_of class_timetable (str_int p) = None"
    by (simp add: str_int_def class_timetable_def)
  with True show ?thesis by (simp add: period_start_def)
next
  case False
  then show ?thesis
    using map_of_timetable_digits [of "nat p"] by (simp add: str_int_def)
qed

lemma timetable_lookup_start_clock:
  "timetable_lookup (str_int p) = Inr t \<Longrightarrow> startTime t = start_clock p"
  using timetable_start [of p]
  by (auto simp: timetable_lookup_def start_clock_def split: option.splits)

lemma timetable_lookup_defined:
  "(\<exists>t. timetable_lookup (str_int p) = Inr t) \<longleftrightarrow> 1 \<le> p \<and> p \<le> 10"
proof -
  have "period_start p \<noteq> None \<longleftrightarrow> 1 \<le> p \<and> p \<le> 10"
    unfolding period_start_def by (simp split: if_splits) arith
  then show ?thesis
    using timetable_start [of p]
    by (auto simp: timetable_lookup_def split: option.splits)
qed

subsection \<open>The exclusion loop\<close>

lemma skip_iff_not_candidate:
  "(status = 1 \<and> w mod 2 = 0 \<or> status = 2 \<and> w mod 2 = 1) \<longleftrightarrow> \<not> candidate_week status w"
  by (auto simp: candidate_week_def ODD_WEEKS_def EVEN_WEEKS_def even_iff_mod_2_eq_zero
        odd_iff_mod_2_eq_one)

lemma loop_skip:
  "\<not> candidate_week status w \<Longrightarrow>
     exclude_dates_loop h status first start sec0 (w # ws) acc
       = exclude_dates_loop h status first start sec0 ws acc"
  using skip_iff_not_candidate [of status w] by auto

lemma loop_date_error:
  "candidate_week status w \<Longrightarrow> date_add first (7 * (w - start)) = Inl e \<Longrightarrow>
     exclude_dates_loop h status first start sec0 (w # ws) acc = Inl e"
  using skip_iff_not_candidate [of status w] by auto

lemma loop_oracle_error:
  "candidate_week status w \<Longrightarrow> date_add first (7 * (w - start)) = Inr d \<Longrightarrow> h d = Inl e \<Longrightarrow>
     exclude_dates_loop h status first start sec0 (w # ws) acc = Inl e"
  using skip_iff_not_candidate [of status w] by auto

lemma loop_no_holiday:
  "candidate_week status w \<Longrightarrow> date_add first (7 * (w - start)) = Inr d \<Longrightarrow> h d = Inr False \<Longrightarrow>
     exclude_dates_loop h status first start sec0 (w # ws) acc
       = exclude_dates_loop h status first start sec0 ws acc"
  using skip_iff_not_candidate [of status w] by auto

lemma loop_holiday:
  "candidate_week status w \<Longrightarrow> date_add first (7 * (w - start)) = Inr d \<Longrightarrow> h d = Inr True \<Longrightarrow>
     timetable_lookup (str_int sec0) = Inr t \<Longrightarrow>
     exclude_dates_loop h status first start sec0 (w # ws) acc
       = exclude_dates_loop h status first start sec0 ws (acc @ [strftime_Ymd d @ ''T'' @ startTime t])"
  using skip_iff_not_candidate [of status w] by auto

lemma loop_key_error:
  "candidate_week status w \<Longrightarrow> date_add first (7 * (w - start)) = Inr d \<Longrightarrow> h d = Inr True \<Longrightarrow>
     timetable_lookup (str_int sec0) = Inl e \<Longrightarrow>
     exclude_dates_loop h status first start sec0 (w # ws) acc = Inl e"
  using skip_iff_not_candidate [of status w] by auto

lemma oracle_cases:
  obtains e where "(h :: date \<Rightarrow> error + bool) d = Inl e" | "h d = Inr False" | "h d = Inr True"
  by (cases "h d") auto

lemma exclude_dates_loop_Inr:
  "exclude_dates_loop h status first start sec0 ws acc = Inr xs \<Longrightarrow>
     xs = acc @ map (\<lambda>w. strftime_Ymd (first + 7 * (w - start)) @ ''T'' @ start_clock sec0)
                 (filter (\<lambda>w. h (first + 7 * (w - start)) = Inr True) (filter (candidate_week status) ws))"
proof (induction ws arbitrary: acc)
  case Nil
  then show ?case by simp
next
  case (Cons w ws)
  show ?case
  proof (cases "candidate_week status w")
    case False
    from loop_skip [OF False] Cons.prems
    have "exclude_dates_loop h status first start sec0 ws acc = Inr xs"
      by simp
    from Cons.IH [OF this] False show ?thesis by simp
  next
    case True
    show ?thesis
    proof (cases "date_add first (7 * (w - start))")
      case (Inl e)
      from loop_date_error [OF True Inl] Cons.prems show ?thesis by simp
    next
      case (Inr d)
      then have d_eq: "d = first + 7 * (w - start)"
        by (simp only: date_add_Inr_iff)
      show ?thesis
      proof (cases rule: oracle_cases [of h d])
        case (1 e)
        from loop_oracle_error [where h = h, OF True Inr 1] Cons.prems show ?thesis by simp
      next
        case 2
        from loop_no_holiday [where h = h, OF True Inr 2] Cons.prems
        have "exclude_dates_loop h status first start sec0 ws acc = Inr xs"
          by simp
        from Cons.IH [OF this] True 2 d_eq show ?thesis by simp
      next
        case 3
        show ?thesis
        proof (cases "timetable_lookup (str_int sec0)")
          case (Inl e)
          from loop_key_error [where h = h, OF True Inr 3 Inl] Cons.prems show ?thesis by simp
        next
          case t: (Inr t)
          from loop_holiday [where h = h, OF True Inr 3 t] Cons.prems
          have "exclude_dates_loop h status first start sec0 ws
                  (acc @ [strftime_Ymd d @ ''T'' @ startTime t]) = Inr xs"
            by simp
          from Cons.IH [OF this] True 3 d_eq timetable_lookup_start_clock [OF t] show ?thesis
            by simp
        qed
      qed
    qed
  qed
qed

lemma exclude_dates_loop_total:
  assumes "\<forall>w \<in> set ws. candidate_week status w \<longrightarrow>
             (\<exists>d. date_add first (7 * (w - start)) = Inr d)
             \<and> (\<exists>b. h (first + 7 * (w - start)) = Inr b)
             \<and> (h (first + 7 * (w - start)) = Inr True \<longrightarrow> (\<exists>t. timetable_lookup (str_int sec0) = Inr t))"
  shows "\<exists>xs. exclude_dates_loop h status first start sec0 ws acc = Inr xs"
  using assms
proof (induction ws arbitrary: acc)
  case Nil
  then show ?case by simp
next
  case (Cons w ws)
  then have rest: "\<And>acc'. \<exists>xs. exclude_dates_loop h status first start sec0 ws acc' = Inr xs"
    by simp
  show ?case
  proof (cases "candidate_week status w")
    case False
    from loop_skip [OF False] rest [of acc] show ?thesis by simp
  next
    case True
    with Cons.prems obtain d where d: "date_add first (7 * (w - start)) = Inr d"
      by auto
    then have d_eq: "d = first + 7 * (w - start)"
      by (simp only: date_add_Inr_iff)
    from Cons.prems True d_eq obtain b where b: "h d = Inr b"
      by auto
    show ?thesis
    proof (cases b)
      case False
      with b have "h d = Inr False" by simp
      from loop_no_holiday [where h = h, OF True d this] rest [of acc] show ?thesis by simp
    next
      case True
      with b have hol: "h d = Inr True" by simp
      with Cons.prems \<open>candidate_week status w\<close> d_eq
      obtain t where t: "timetable_lookup (str_int sec0) = Inr t"
        by auto
      from loop_holiday [where h = h, OF \<open>candidate_week status w\<close> d hol t] rest show ?thesis by simp
    qed
  qed
qed

subsection \<open>The exclusion set of a session\<close>

lemma exclude_dates_loop_lookup:
  "exclude_dates_loop h status first start sec0 ws acc = Inr xs \<Longrightarrow>
     w \<in> set ws \<Longrightarrow> candidate_week status w \<Longrightarrow> h (first + 7 * (w - start)) = Inr True \<Longrightarrow>
     \<exists>t. timetable_lookup (str_int sec0) = Inr t"
proof (induction ws arbitrary: acc)
  case Nil
  then show ?case by simp
next
  case (Cons v ws)
  show ?case
  proof (cases "timetable_lookup (str_int sec0)")
    case (Inr t)
    then show ?thesis by blast
  next
    case (Inl e)
    show ?thesis
    proof (cases "candidate_week status v")
      case False
      from loop_skip [OF False] Cons.prems(1)
      have r: "exclude_dates_loop h status first start sec0 ws acc = Inr xs" by simp
      from False Cons.prems have "w \<in> set ws" by auto
      from Cons.IH [OF r this Cons.prems(3,4)] show ?thesis .
    next
      case True
      show ?thesis
      proof (cases "date_add first (7 * (v - start))")
        case de: (Inl e')
        from loop_date_error [OF True de] Cons.prems(1) show ?thesis by simp
      next
        case (Inr d)
        then have d_eq: "d = first + 7 * (v - start)"
          by (simp only: date_add_Inr_iff)
        show ?thesis
        proof (cases rule: oracle_cases [of h d])
          case (1 e')
          from loop_oracle_error [where h = h, OF True Inr 1] Cons.prems(1) show ?thesis by simp
        next
          case 3
          from loop_key_error [where h = h, OF True Inr 3 Inl] Cons.prems(1)
          show ?thesis by simp
        next
          case 2
          from loop_no_holiday [where h = h, OF True Inr 2] Cons.prems(1)
          have r: "exclude_dates_loop h status first start sec0 ws acc = Inr xs" by simp
          from 2 d_eq Cons.prems have "w \<in> set ws" by auto
          from Cons.IH [OF r this Cons.prems(3,4)] show ?thesis .
        qed
      qed
    qed
  qed
qed

lemma exclude_dates_loop_answers:
  "exclude_dates_loop h status first start sec0 ws acc = Inr xs \<Longrightarrow>
     w \<in> set ws \<Longrightarrow> candidate_week status w \<Longrightarrow> \<exists>b. h (first + 7 * (w - start)) = Inr b"
proof (induction ws arbitrary: acc)
  case Nil
  then show ?case by simp
next
  case (Cons v ws)
  show ?case
  proof (cases "candidate_week status v")
    case False
    from loop_skip [OF False] Cons.prems(1)
    have r: "exclude_dates_loop h status first start sec0 ws acc = Inr xs" by simp
    from False Cons.prems have "w \<in> set ws" by auto
    from Cons.IH [OF r this Cons.prems(3)] show ?thesis .
  next
    case True
    show ?thesis
    proof (cases "date_add first (7 * (v - start))")
      case de: (Inl e')
      from loop_date_error [OF True de] Cons.prems(1) show ?thesis by simp
    next
      case (Inr d)
      then have d_eq: "d = first + 7 * (v - start)"
        by (simp only: date_add_Inr_iff)
      show ?thesis
      proof (cases rule: oracle_cases [of h d])
        case (1 e')
        from loop_oracle_error [where h = h, OF True Inr 1] Cons.prems(1) show ?thesis by simp
      next
        case 2
        show ?thesis
        proof (cases "w = v")
          case True
          with 2 d_eq show ?thesis by auto
        next
          case False
          from loop_no_holiday [where h = h, OF True Inr 2] Cons.prems(1)
          have r: "exclude_dates_loop h status first start sec0 ws acc = Inr xs" by simp
          from False Cons.prems have "w \<in> set ws" by auto
          from Cons.IH [OF r this Cons.prems(3)] show ?thesis .
        qed
      next
        case 3
        show ?thesis
        proof (cases "w = v")
          case True
          with 3 d_eq show ?thesis by auto
        next
          case False
          show ?thesis
          proof (cases "timetable_lookup (str_int sec0)")
            case (Inl e)
            from loop_key_error [where h = h, OF \<open>candidate_week status v\<close> Inr 3 Inl] Cons.prems(1)
            show ?thesis by simp
          next
            case t: (Inr t)
            from loop_holiday [where h = h, OF \<open>candidate_week status v\<close> Inr 3 t] Cons.prems(1)
            have r: "exclude_dates_loop h status first start sec0 ws
                       (acc @ [strftime_Ymd d @ ''T'' @ startTime t]) = Inr xs" by simp
            from False Cons.prems have "w \<in> set ws" by auto
            from Cons.IH [OF r this Cons.prems(3)] show ?thesis .
          qed
        qed
      qed
    qed
  qed
qed

lemma date_add_explicit:
  "date_add d n =
     (if - 999999999 \<le> n \<and> n \<le> 999999999 \<and> 1 \<le> d + n \<and> d + n \<le> 3652059
      then Inr (d + n) else Inl OverflowError)"
  by (simp add: date_add_def timedelta_def MAXORDINAL_def)

lemma first_time_obj_Min:
  "weeks \<noteq> [] \<Longrightarrow>
     first_time_obj anchor day weeks = date_add anchor (7 * (Min (set weeks) - 1) + (day - 1))"
  using delta_time_unshifted [of weeks day]
  by (simp add: first_time_obj_def start_week_Min)

lemma first_time_obj_occurrence:
  "weeks \<noteq> [] \<Longrightarrow> first_time_obj anchor day weeks = Inr f \<Longrightarrow>
     f = occurrence_date anchor day (Min (set weeks))"
  by (simp add: first_time_obj_Min date_add_Inr_iff occurrence_date_def)

lemma occurrence_date_shift:
  "occurrence_date anchor day s + 7 * (w - s) = occurrence_date anchor day w"
  by (simp add: occurrence_date_def)

lemma occurrence_date_shift':
  "occurrence_date anchor day s + (7 * w - 7 * s) = occurrence_date anchor day w"
  by (simp add: occurrence_date_def)

lemma session_loop:
  assumes "weeks \<noteq> []" and "first_time_obj anchor day weeks = Inr f"
  shows "session_exclude_dates h anchor day sec0 weeks
           = exclude_dates_loop h (pattern_spec weeks) f (Min (set weeks)) sec0
               [Min (set weeks)..Max (set weeks)] []"
  using assms
  by (simp add: session_exclude_dates_def exclude_dates_def start_week_Min end_week_Max
        week_status_pattern_spec)

lemma session_first:
  assumes "session_exclude_dates h anchor day sec0 weeks = Inr xs"
  obtains f where "first_time_obj anchor day weeks = Inr f"
  using assms
  by (cases "first_time_obj anchor day weeks") (auto simp: session_exclude_dates_def)

lemma session_exclude_dates_Inr:
  assumes "weeks \<noteq> []" and "session_exclude_dates h anchor day sec0 weeks = Inr xs"
  shows "xs = exclusion_spec h anchor day sec0 weeks"
proof -
  from assms(2) obtain f where f: "first_time_obj anchor day weeks = Inr f"
    by (rule session_first)
  have f_eq: "f = occurrence_date anchor day (Min (set weeks))"
    using assms(1) f by (rule first_time_obj_occurrence)
  from assms(2) session_loop [OF assms(1) f]
  have "exclude_dates_loop h (pattern_spec weeks) f (Min (set weeks)) sec0
          [Min (set weeks)..Max (set weeks)] [] = Inr xs"
    by simp
  from exclude_dates_loop_Inr [OF this] show ?thesis
    by (simp add: f_eq occurrence_date_shift occurrence_date_shift' exclusion_spec_def
          excluded_weeks_def candidate_weeks_def)
qed

lemma session_exclude_dates_lookup:
  assumes "weeks \<noteq> []" and "session_exclude_dates h anchor day sec0 weeks = Inr xs"
    and "excluded_weeks h anchor day weeks \<noteq> []"
  shows "1 \<le> sec0 \<and> sec0 \<le> 10"
proof -
  from assms(2) obtain f where f: "first_time_obj anchor day weeks = Inr f"
    by (rule session_first)
  have f_eq: "f = occurrence_date anchor day (Min (set weeks))"
    using assms(1) f by (rule first_time_obj_occurrence)
  from assms(2) session_loop [OF assms(1) f]
  have loop: "exclude_dates_loop h (pattern_spec weeks) f (Min (set weeks)) sec0
          [Min (set weeks)..Max (set weeks)] [] = Inr xs"
    by simp
  from assms(3) obtain w where w: "w \<in> set (excluded_weeks h anchor day weeks)"
    by (cases "excluded_weeks h anchor day weeks") auto
  then have "w \<in> set [Min (set weeks)..Max (set weeks)]"
    and "candidate_week (pattern_spec weeks) w"
    and "h (f + 7 * (w - Min (set weeks))) = Inr True"
    by (auto simp: excluded_weeks_def candidate_weeks_def f_eq occurrence_date_shift
          occurrence_date_shift')
  from exclude_dates_loop_lookup [OF loop this]
  show ?thesis by (simp only: timetable_lookup_defined)
qed

lemma session_exclude_dates_answers:
  assumes "weeks \<noteq> []" and "session_exclude_dates h anchor day sec0 weeks = Inr xs"
    and "w \<in> set (candidate_weeks weeks)"
  shows "\<exists>b. h (occurrence_date anchor day w) = Inr b"
proof -
  from assms(2) obtain f where f: "first_time_obj anchor day weeks = Inr f"
    by (rule session_first)
  have f_eq: "f = occurrence_date anchor day (Min (set weeks))"
    using assms(1) f by (rule first_time_obj_occurrence)
  from assms(2) session_loop [OF assms(1) f]
  have loop: "exclude_dates_loop h (pattern_spec weeks) f (Min (set weeks)) sec0
          [Min (set weeks)..Max (set weeks)] [] = Inr xs"
    by simp
  from assms(3) have "w \<in> set [Min (set weeks)..Max (set weeks)]"
    and "candidate_week (pattern_spec weeks) w"
    by (auto simp: candidate_weeks_def)
  from exclude_dates_loop_answers [OF loop this]
  show ?thesis by (simp add: f_eq occurrence_date_shift occurrence_date_shift')
qed

lemma session_exclude_dates_total:
  assumes ne: "weeks \<noteq> []"
    and anchor: "1 \<le> anchor" "anchor \<le> 3652059"
    and lo: "1 \<le> occurrence_date anchor day (Min (set weeks))"
    and hi: "occurrence_date anchor day (Max (set weeks)) \<le> 3652059"
    and ans: "\<forall>w \<in> set (candidate_weeks weeks). \<exists>b. h (occurrence_date anchor day w) = Inr b"
    and lk: "excluded_weeks h anchor day weeks = [] \<or> (1 \<le> sec0 \<and> sec0 \<le> 10)"
  shows "session_exclude_dates h anchor day sec0 weeks = Inr (exclusion_spec h anchor day sec0 weeks)"
proof -
  let ?s = "Min (set weeks)" and ?e = "Max (set weeks)"
  let ?f = "occurrence_date anchor day ?s"
  have se: "?s \<le> ?e" using ne by simp
  have mono: "\<And>w. ?s \<le> w \<Longrightarrow> w \<le> ?e \<Longrightarrow>
     ?f \<le> occurrence_date anchor day w \<and> occurrence_date anchor day w \<le> occurrence_date anchor day ?e"
    by (simp add: occurrence_date_def)
  have f_hi: "?f \<le> 3652059" using mono [of ?s] se hi by simp
  have f: "first_time_obj anchor day weeks = Inr ?f"
    using ne anchor lo f_hi
    by (simp add: first_time_obj_Min date_add_Inr_iff occurrence_date_def MAXORDINAL_def)
  have "\<forall>w \<in> set [?s..?e]. candidate_week (pattern_spec weeks) w \<longrightarrow>
          (\<exists>d. date_add ?f (7 * (w - ?s)) = Inr d)
          \<and> (\<exists>b. h (?f + 7 * (w - ?s)) = Inr b)
          \<and> (h (?f + 7 * (w - ?s)) = Inr True \<longrightarrow> (\<exists>t. timetable_lookup (str_int sec0) = Inr t))"
  proof (intro ballI impI conjI)
    fix w assume w: "w \<in> set [?s..?e]" and c: "candidate_week (pattern_spec weeks) w"
    then have r: "?s \<le> w" "w \<le> ?e" by auto
    from mono [OF r] lo hi f_hi
    have "1 \<le> ?f + 7 * (w - ?s)" "?f + 7 * (w - ?s) \<le> 3652059"
      by (simp_all add: occurrence_date_shift occurrence_date_shift')
    moreover have "0 \<le> 7 * (w - ?s)" using r by simp
    moreover have "7 * (w - ?s) \<le> 3652059"
      using \<open>?f + 7 * (w - ?s) \<le> 3652059\<close> lo by simp
    ultimately show "\<exists>d. date_add ?f (7 * (w - ?s)) = Inr d"
      by (simp add: date_add_Inr_iff MAXORDINAL_def)
  next
    fix w assume w: "w \<in> set [?s..?e]" and c: "candidate_week (pattern_spec weeks) w"
    then have "w \<in> set (candidate_weeks weeks)"
      by (simp add: candidate_weeks_def)
    with ans show "\<exists>b. h (?f + 7 * (w - ?s)) = Inr b"
      by (simp add: occurrence_date_shift occurrence_date_shift')
  next
    fix w assume w: "w \<in> set [?s..?e]" and c: "candidate_week (pattern_spec weeks) w"
      and hol: "h (?f + 7 * (w - ?s)) = Inr True"
    then have "w \<in> set (excluded_weeks h anchor day weeks)"
      by (simp add: excluded_weeks_def candidate_weeks_def occurrence_date_shift occurrence_date_shift')
    then have "excluded_weeks h anchor day weeks \<noteq> []" by auto
    with lk show "\<exists>t. timetable_lookup (str_int sec0) = Inr t"
      by (simp only: timetable_lookup_defined) simp
  qed
  from exclude_dates_loop_total [OF this]
  obtain xs where "exclude_dates_loop h (pattern_spec weeks) ?f ?s sec0 [?s..?e] [] = Inr xs"
    by blast
  with session_loop [OF ne f]
  have "session_exclude_dates h anchor day sec0 weeks = Inr xs"
    by simp
  with session_exclude_dates_Inr [OF ne this] show ?thesis by simp
qed

lemma excluded_weeks_ascending:
  "sorted_wrt (<) (map (occurrence_date anchor day) (excluded_weeks h anchor day weeks))"
proof -
  have "sorted_wrt (<) [Min (set weeks)..Max (set weeks)]"
    by (simp add: strict_sorted_iff)
  then have "sorted_wrt (<) (candidate_weeks weeks)"
    unfolding candidate_weeks_def by (intro sorted_wrt_filter)
  then have "sorted_wrt (<) (excluded_weeks h anchor day weeks)"
    unfolding excluded_weeks_def by (intro sorted_wrt_filter)
  then show ?thesis
    by (simp add: sorted_wrt_map occurrence_date_def)
qed

lemma candidate_weeks_mono:
  assumes "Min (set weeks') \<le> Min (set weeks)" "Max (set weeks) \<le> Max (set weeks')"
    "week_status weeks' = week_status weeks"
  shows "set (candidate_weeks weeks) \<subseteq> set (candidate_weeks weeks')"
  using assms by (auto simp: candidate_weeks_def week_status_pattern_spec)

lemma excluded_weeks_mono:
  assumes "Min (set weeks') \<le> Min (set weeks)" "Max (set weeks) \<le> Max (set weeks')"
    "week_status weeks' = week_status weeks"
  shows "set (excluded_weeks h anchor day weeks) \<subseteq> set (excluded_weeks h anchor day weeks')"
  using candidate_weeks_mono [OF assms] by (auto simp: excluded_weeks_def)

subsection \<open>Concrete values\<close>

lemma strftime_20230929: "strftime_Ymd 738792 = ''20230929''"
  by (simp add: ord2ymd_def strftime_Ymd_def zfill_def str_int_def digits.simps digit_char_def
        Let_def DAYS_BEFORE_MONTH_def DAYS_IN_MONTH_def)

lemma strftime_20231006: "strftime_Ymd 738799 = ''20231006''"
  by (simp add: ord2ymd_def strftime_Ymd_def zfill_def str_int_def digits.simps digit_char_def
        Let_def DAYS_BEFORE_MONTH_def DAYS_IN_MONTH_def)

lemma strftime_20261001: "strftime_Ymd 739890 = ''20261001''"
  by (simp add: ord2ymd_def strftime_Ymd_def zfill_def str_int_def digits.simps digit_char_def
        Let_def DAYS_BEFORE_MONTH_def DAYS_IN_MONTH_def)

lemma strftime_99991224: "strftime_Ymd 3652052 = ''99991224''"
  by (simp add: ord2ymd_def strftime_Ymd_def zfill_def str_int_def digits.simps digit_char_def
        Let_def DAYS_BEFORE_MONTH_def DAYS_IN_MONTH_def)

lemma timetable_lookup_1:
  "timetable_lookup (str_int 1) = Inr \<lparr>startTime = ''080000'', endTime = ''084000''\<rparr>"
  by (simp add: timetable_lookup_def class_timetable_def str_int_def digits.simps digit_char_def)

lemma candidate_weeks_35: "candidate_weeks [3, 5] = [3, 5]"
  by (simp add: candidate_weeks_def pattern_spec_def candidate_week_def ODD_WEEKS_def
        EVEN_WEEKS_def)

lemma candidate_weeks_1357: "candidate_weeks [1, 3, 5, 7] = [1, 3, 5, 7]"
  by (simp add: candidate_weeks_def pattern_spec_def candidate_week_def ODD_WEEKS_def
        EVEN_WEEKS_def upto_rec1)

lemma candidate_weeks_345: "candidate_weeks [3, 4, 5] = [3, 4, 5]"
  by (simp add: candidate_weeks_def pattern_spec_def candidate_week_def ODD_WEEKS_def
        EVEN_WEEKS_def EVERY_WEEK_def)

lemma excluded_weeks_35: "excluded_weeks holidays_2023 738767 5 [3, 5] = [5]"
  unfolding excluded_weeks_def candidate_weeks_35
  by (simp add: occurrence_date_def holidays_2023_def)

lemma excluded_weeks_345: "excluded_weeks holidays_2023 738767 5 [3, 4, 5] = [4, 5]"
  unfolding excluded_weeks_def candidate_weeks_345
  by (simp add: occurrence_date_def holidays_2023_def)

lemma exclusion_spec_35:
  "exclusion_spec holidays_2023 738767 5 5 [3, 5] = [''20231006T133000'']"
  unfolding exclusion_spec_def excluded_weeks_35
  by (simp add: occurrence_date_def strftime_20231006 start_clock_def period_start_def)

lemma exclusion_spec_345:
  "exclusion_spec holidays_2023 738767 5 10 [3, 4, 5] = [''20230929T185000'', ''20231006T185000'']"
  unfolding exclusion_spec_def excluded_weeks_345
  by (simp add: occurrence_date_def strftime_20230929 strftime_20231006 start_clock_def
        period_start_def)

lemma holidays_2023_answers: "\<exists>b. holidays_2023 d = Inr b"
  by (simp add: holidays_2023_def)

lemma session_35:
  "session_exclude_dates holidays_2023 738767 5 5 [3, 5] = Inr [''20231006T133000'']"
proof -
  have "session_exclude_dates holidays_2023 738767 5 5 [3, 5]
          = Inr (exclusion_spec holidays_2023 738767 5 5 [3, 5])"
    by (rule session_exclude_dates_total) (simp_all add: occurrence_date_def holidays_2023_answers)
  then show ?thesis by (simp only: exclusion_spec_35)
qed

lemma session_overflow_small:
  "session_exclude_dates holiday_every_day 3652052 1 1 [1] = Inr [''99991224T080000'']"
  by (simp add: session_exclude_dates_def first_time_obj_def week_status_def start_week_def
        end_week_def delta_time_def exclude_dates_def date_add_explicit holiday_every_day_def
        timetable_lookup_1 strftime_99991224 upto_rec1)

lemma session_overflow_large:
  "session_exclude_dates holiday_every_day 3652052 1 1 [1, 3] = Inl OverflowError"
  by (simp add: session_exclude_dates_def first_time_obj_def week_status_def start_week_def
        end_week_def delta_time_def exclude_dates_def date_add_explicit holiday_every_day_def
        timetable_lookup_1 strftime_99991224 upto_rec1)

lemma session_2026_small:
  "session_exclude_dates holidays_to_2026 739866 4 1 [4, 5] = Inr [''20261001T080000'']"
  by (simp add: session_exclude_dates_def first_time_obj_def week_status_def start_week_def
        end_week_def delta_time_def exclude_dates_def date_add_explicit holidays_to_2026_def
        timetable_lookup_1 strftime_20261001)

lemma session_2026_large:
  "session_exclude_dates holidays_to_2026 739866 4 1 [4, 5, 18] = Inl NotImplementedError"
  by (simp add: session_exclude_dates_def first_time_obj_def week_status_def start_week_def
        end_week_def delta_time_def exclude_dates_def date_add_explicit holidays_to_2026_def
        timetable_lookup_1 strftime_20261001)

subsection \<open>Calendar generation\<close>

lemma replace_newline:
  "replace nl ''-'' s = map (\<lambda>ch. if ch = CHR 0x0A then CHR ''-'' else ch) s"
  by (induction s) (auto simp: nl_def)

lemma j_position_format: "j_position (format_course c) = replace nl ''-'' (c_position c)"
  by (simp add: format_course_def Let_def)

lemma course_event_location:
  assumes "course_event uid utc_now is_holiday initial_time alarm_minutes course n = Inr (ev, n')"
  shows "\<exists>rest. ev = ''BEGIN:VEVENT'' @ [CHR 0x0A] @ ''CREATED:'' @ utc_now @ [CHR 0x0A]
            @ ''DTSTAMP:'' @ utc_now @ [CHR 0x0A] @ ''SUMMARY:'' @ j_name course @ [CHR 0x0A]
            @ ''DESCRIPTION:'' @ jiaoshi @ j_teacher course @ [CHR 0x0A]
            @ ''LOCATION:'' @ j_position course @ [CHR 0x0A] @ ''TZID:Asia/Shanghai'' @ [CHR 0x0A] @ rest"
  using assms
  by (auto simp: course_event_def ical_base_def Let_def nl_def split: sum.splits if_splits)

lemma strftime_20230904: "strftime_Ymd 738767 = ''20230904''"
  by (simp add: ord2ymd_def strftime_Ymd_def zfill_def str_int_def digits.simps digit_char_def
        Let_def DAYS_BEFORE_MONTH_def DAYS_IN_MONTH_def)

lemma strftime_20230912: "strftime_Ymd 738775 = ''20230912''"
  by (simp add: ord2ymd_def strftime_Ymd_def zfill_def str_int_def digits.simps digit_char_def
        Let_def DAYS_BEFORE_MONTH_def DAYS_IN_MONTH_def)

lemma timetable_lookup_2:
  "timetable_lookup (str_int 2) = Inr \<lparr>startTime = ''085000'', endTime = ''093000''\<rparr>"
  by (simp add: timetable_lookup_def class_timetable_def str_int_def digits.simps digit_char_def)

lemma example_fields:
  "j_name (format_course example_course) = ''PE''"
  "j_teacher (format_course example_course) = ''Li''"
  "j_position (format_course example_course) = ''Gym-101''"
  "j_day (format_course example_course) = 1"
  "j_weeks_array (format_course example_course) = [1, 2]"
  "j_section_array (format_course example_course) = (1, 2)"
  by (simp_all add: format_course_def example_course_def Let_def nl_def)

lemma example_first: "first_time_obj 738767 1 [1, 2] = Inr 738767"
  by (simp add: first_time_obj_def week_status_def start_week_def delta_time_def date_add_explicit)

lemma example_exclude: "exclude_dates holidays_2023 0 738767 1 2 1 = Inr []"
  by (simp add: exclude_dates_def upto_rec1 date_add_explicit holidays_2023_def)

lemma example_course_event:
  "course_event example_uid ''20230901T000000Z'' holidays_2023 738767 0 (format_course example_course) n
     = Inr (example_event (example_uid n), n + 1)"
  by (simp add: course_event_def Let_def example_fields example_first example_exclude
        week_status_def start_week_def end_week_def extra_status_def timetable_lookup_1
        timetable_lookup_2 date_add_explicit strftime_20230904 strftime_20230912 a_trigger_def
        exdate_str_def ical_base_def example_event_def)

lemma write_courses_append:
  "write_courses uid utc_now h initial_time alarm (cs @ ds) f n =
     (case write_courses uid utc_now h initial_time alarm cs f n of
        (f', Inl e) \<Rightarrow> (f', Inl e)
      | (f', Inr n') \<Rightarrow> write_courses uid utc_now h initial_time alarm ds f' n')"
  by (induction cs arbitrary: f n) (auto split: sum.splits prod.splits)

lemma course_event_bad_period:
  assumes "\<not> (1 \<le> fst (j_section_array course) \<and> fst (j_section_array course) \<le> 10)
         \<or> \<not> (1 \<le> snd (j_section_array course) \<and> snd (j_section_array course) \<le> 10)"
  shows "\<exists>e. course_event uid utc_now h initial_time alarm course n = Inl e"
proof -
  from assms timetable_lookup_defined [of "fst (j_section_array course)"]
    timetable_lookup_defined [of "snd (j_section_array course)"]
  have "(\<exists>e. timetable_lookup (str_int (fst (j_section_array course))) = Inl e)
      \<or> (\<exists>e. timetable_lookup (str_int (snd (j_section_array course))) = Inl e)"
    by (cases "timetable_lookup (str_int (fst (j_section_array course)))";
        cases "timetable_lookup (str_int (snd (j_section_array course)))") auto
  then show ?thesis
    by (auto simp: course_event_def Let_def split: sum.splits)
qed

lemma course_event_ends:
  "course_event uid utc_now h initial_time alarm course n = Inr (ev, n') \<Longrightarrow>
     ev \<noteq> [] \<and> last ev = CHR 0x0A"
  by (auto simp: course_event_def ical_base_def Let_def nl_def split: sum.splits if_splits)

lemma write_courses_shape:
  "write_courses uid utc_now h initial_time alarm cs f n = (f', r) \<Longrightarrow>
     \<exists>events. f' = f @ events \<and> (events = [] \<or> last events = CHR 0x0A)"
proof (induction cs arbitrary: f n)
  case Nil
  then show ?case by simp
next
  case (Cons c cs)
  show ?case
  proof (cases "j_weeks_array c = []")
    case True
    with Cons show ?thesis by simp
  next
    case False
    show ?thesis
    proof (cases "course_event uid utc_now h initial_time alarm c n")
      case (Inl e)
      with False Cons.prems show ?thesis by simp
    next
      case (Inr p)
      obtain ev m where p: "p = (ev, m)" by (cases p)
      from course_event_ends Inr p have ev: "ev \<noteq> [] \<and> last ev = CHR 0x0A" by blast
      from False Inr p Cons.prems
      have "write_courses uid utc_now h initial_time alarm cs (f @ ev) m = (f', r)" by simp
      from Cons.IH [OF this] obtain events where
        e: "f' = (f @ ev) @ events" "events = [] \<or> last events = CHR 0x0A" by blast
      from e ev have "f' = f @ (ev @ events) \<and> (ev @ events = [] \<or> last (ev @ events) = CHR 0x0A)"
        by (auto simp: last_append)
      then show ?thesis by blast
    qed
  qed
qed

lemma header_ends: "ical_begin_base \<noteq> [] \<and> last ical_begin_base = CHR 0x0A"
  by (simp add: ical_begin_base_def nl_def)

lemma no_footer:
  assumes "f = ical_begin_base @ events" and "events = [] \<or> last events = CHR 0x0A"
  shows "\<not> (\<exists>p. f = p @ ical_end)"
proof
  assume "\<exists>p. f = p @ ical_end"
  then obtain p where "f = p @ ical_end" ..
  then have "last f = CHR ''R''" by (simp add: ical_end_def nl_def)
  moreover from assms header_ends have "last f = CHR 0x0A" by (auto simp: last_append)
  ultimately show False by simp
qed

lemma example_write:
  "write_courses example_uid ''20230901T000000Z'' holidays_2023 738767 0
     [format_course example_course] f n
     = (f @ example_event (example_uid n), Inr (n + 1))"
  by (simp add: example_fields example_course_event)

lemma bad_fields:
  "j_weeks_array (format_course (example_course\<lparr>c_sections := (11, 12)\<rparr>)) = [1, 2]"
  "j_section_array (format_course (example_course\<lparr>c_sections := (11, 12)\<rparr>)) = (11, 12)"
  by (simp_all add: format_course_def example_course_def Let_def)

lemma example_generate:
  "generate_ics_from_json example_uid ''20230901T000000Z'' holidays_2023
     (save_courses_to_json [example_course]) 738767 0
     = \<lparr>file_content = Some (ical_begin_base @ example_event (example_uid 0) @ ical_end),
        returned = Some (kebiao @ ''-20230901T000000Z.ics'')\<rparr>"
  by (simp add: generate_ics_from_json_def save_courses_to_json_def example_write
        del: write_courses.simps)

section \<open>Recurrence classification\<close>

text \<open>
  Claim C1. For every non-empty list of weeks, \<open>week_status\<close> is ODD_WEEKS when every
  week is odd, EVEN_WEEKS when every week is even, and EVERY_WEEK when the weeks are of
  mixed parity.
\<close>

theorem week_status_classification:
  assumes "weeks \<noteq> []"
  shows "((\<forall>w \<in> set weeks. odd w) \<longrightarrow> week_status weeks = ODD_WEEKS)
       \<and> ((\<forall>w \<in> set weeks. even w) \<longrightarrow> week_status weeks = EVEN_WEEKS)
       \<and> (\<not> (\<forall>w \<in> set weeks. odd w) \<and> \<not> (\<forall>w \<in> set weeks. even w)
            \<longrightarrow> week_status weeks = EVERY_WEEK)"
proof -
  have "week_status weeks = 1 \<longleftrightarrow> (\<forall>w \<in> set weeks. odd w)"
    by (rule week_status_odd_iff)
  moreover have "week_status weeks = 2 \<longleftrightarrow> (\<forall>w \<in> set weeks. even w)"
    using assms by (rule week_status_even_iff)
  moreover have "week_status weeks = 0 \<or> week_status weeks = 1 \<or> week_status weeks = 2"
    by (simp add: week_status_def Let_def)
  ultimately show ?thesis
    unfolding ODD_WEEKS_def EVEN_WEEKS_def EVERY_WEEK_def by blast
qed

text \<open>The classification at an all-odd, an all-even and a mixed list of weeks.\<close>

theorem week_status_classification_witness:
  "week_status [1, 3, 5] = ODD_WEEKS \<and> week_status [2, 4, 6] = EVEN_WEEKS
     \<and> week_status [1, 2, 4] = EVERY_WEEK"
  using week_status_classification [of "[1, 3, 5]"]
        week_status_classification [of "[2, 4, 6]"]
        week_status_classification [of "[1, 2, 4]"]
  by simp

section \<open>First occurrence\<close>

text \<open>
  Claim C2. For every session with a non-empty list of weeks, the first occurrence is the
  anchor date plus \<open>7 * (startWeek - 1) + (weekday - 1)\<close> days, where \<open>startWeek\<close> is
  the least week, plus 7 more days when the pattern is ODD_WEEKS and \<open>startWeek\<close> is
  even, and 7 more days when the pattern is EVEN_WEEKS and \<open>startWeek\<close> is odd. The
  offset is stated for every pattern and start week, and the date as the day number of the
  anchor plus the offset; \<open>datetime\<close> raises \<open>OverflowError\<close> when the offset
  exceeds 999999999 days or the date leaves 0001-01-01 .. 9999-12-31 (days 1 to 3652059).
\<close>

theorem first_occurrence_date:
  assumes "weeks \<noteq> []"
  shows "start_week weeks = Min (set weeks)
       \<and> (\<forall>status sw. delta_time status sw day =
            7 * (sw - 1) + (day - 1)
              + (if status = ODD_WEEKS \<and> even sw then 7 else 0)
              + (if status = EVEN_WEEKS \<and> odd sw then 7 else 0))
       \<and> first_time_obj initial_time day weeks =
           (let n = 7 * (Min (set weeks) - 1) + (day - 1)
                      + (if (\<forall>w \<in> set weeks. odd w) \<and> even (Min (set weeks)) then 7 else 0)
                      + (if (\<forall>w \<in> set weeks. even w) \<and> odd (Min (set weeks)) then 7 else 0)
            in if - 999999999 \<le> n \<and> n \<le> 999999999
                    \<and> 1 \<le> initial_time + n \<and> initial_time + n \<le> 3652059
               then Inr (initial_time + n) else Inl OverflowError)"
proof (intro conjI allI)
  show "start_week weeks = Min (set weeks)"
    using assms by (rule start_week_Min)
next
  fix status sw
  show "delta_time status sw day =
          7 * (sw - 1) + (day - 1)
            + (if status = ODD_WEEKS \<and> even sw then 7 else 0)
            + (if status = EVEN_WEEKS \<and> odd sw then 7 else 0)"
    by (simp add: delta_time_def Let_def ODD_WEEKS_def EVEN_WEEKS_def
          even_iff_mod_2_eq_zero odd_iff_mod_2_eq_one)
next
  have mem: "Min (set weeks) \<in> set weeks"
    using assms by simp
  have o: "(if (\<forall>w \<in> set weeks. odd w) \<and> even (Min (set weeks)) then 7 else 0) = (0::int)"
    using mem by auto
  have e: "(if (\<forall>w \<in> set weeks. even w) \<and> odd (Min (set weeks)) then 7 else 0) = (0::int)"
    using mem by auto
  show "first_time_obj initial_time day weeks =
           (let n = 7 * (Min (set weeks) - 1) + (day - 1)
                      + (if (\<forall>w \<in> set weeks. odd w) \<and> even (Min (set weeks)) then 7 else 0)
                      + (if (\<forall>w \<in> set weeks. even w) \<and> odd (Min (set weeks)) then 7 else 0)
            in if - 999999999 \<le> n \<and> n \<le> 999999999
                    \<and> 1 \<le> initial_time + n \<and> initial_time + n \<le> 3652059
               then Inr (initial_time + n) else Inl OverflowError)"
    unfolding Let_def o e first_time_obj_Min [OF assms]
    by (simp add: date_add_explicit)
qed

text \<open>
  The offset with and without a shift; weeks 2, 4, 6 on a Wednesday and weeks 5, 3, 7 on a
  Tuesday from the anchor 2023-09-04 (day 738767) fall 9 and 15 days later; week 3 from
  the anchor 9999-12-24 is beyond the last date.
\<close>

theorem first_occurrence_date_witness:
  "delta_time ODD_WEEKS 2 3 = 16 \<and> delta_time EVEN_WEEKS 3 1 = 21
     \<and> delta_time EVERY_WEEK 2 3 = 9 \<and> delta_time ODD_WEEKS 3 1 = 14
     \<and> start_week [5, 3, 7] = 3
     \<and> first_time_obj 738767 3 [2, 4, 6] = Inr 738776
     \<and> first_time_obj 738767 2 [5, 3, 7] = Inr 738782
     \<and> first_time_obj 3652052 1 [3] = Inl OverflowError"
  using first_occurrence_date [of "[2, 4, 6]" 3 738767]
        first_occurrence_date [of "[5, 3, 7]" 2 738767]
        first_occurrence_date [of "[3]" 1 3652052]
  by (simp add: ODD_WEEKS_def EVEN_WEEKS_def EVERY_WEEK_def)



section \<open>Scenario: weeks 2, 4, 6 on a Wednesday\<close>

text \<open>
  Claim C6, as amended. For weeks 2, 4, 6, weekday 3 and anchor 2023-09-04 the pattern is
  EVEN_WEEKS, the start week is 2, there is no parity shift, the offset is
  \<open>7 * (2 - 1) + (3 - 1) = 9\<close> days and the first occurrence is 2023-09-13.
\<close>

theorem scenario_even_weeks:
  "week_status [2, 4, 6] = EVEN_WEEKS
     \<and> start_week [2, 4, 6] = 2
     \<and> delta_time (week_status [2, 4, 6]) (start_week [2, 4, 6]) 3 = 7 * (2 - 1) + (3 - 1)
     \<and> first_time_obj (ymd2ord 2023 9 4) 3 [2, 4, 6] = Inr (ymd2ord 2023 9 13)
     \<and> ord2ymd (ymd2ord 2023 9 13) = (2023, 9, 13)
     \<and> strftime_Ymd (ymd2ord 2023 9 13) = ''20230913''"
  by (simp add: week_status_def EVEN_WEEKS_def start_week_def delta_time_def first_time_obj_def
        date_add_def timedelta_def MAXORDINAL_def ymd2ord_def days_before_year_def
        days_before_month_def DAYS_BEFORE_MONTH_def DAYS_IN_MONTH_def is_leap_def
        ord2ymd_def strftime_Ymd_def zfill_def str_int_def digits.simps digit_char_def Let_def)

text \<open>The same scenario on day numbers: day 738767 is 2023-09-04.\<close>

theorem scenario_even_weeks_witness:
  "first_time_obj 738767 3 [2, 4, 6] = Inr 738776 \<and> ord2ymd 738776 = (2023, 9, 13)"
  using scenario_even_weeks
  by (simp add: ymd2ord_def days_before_year_def days_before_month_def DAYS_BEFORE_MONTH_def
        is_leap_def)

text \<open>
  The date 2023-09-20 of the scenario is 16 days after the anchor, not 9: it is not the
  first occurrence that the code computes.
\<close>

theorem scenario_even_weeks_counterexample:
  "week_status [2, 4, 6] = EVEN_WEEKS
     \<and> first_time_obj (ymd2ord 2023 9 4) 3 [2, 4, 6] \<noteq> Inr (ymd2ord 2023 9 20)"
  by (simp add: week_status_def EVEN_WEEKS_def start_week_def delta_time_def first_time_obj_def
        date_add_def timedelta_def MAXORDINAL_def ymd2ord_def days_before_year_def
        days_before_month_def DAYS_BEFORE_MONTH_def is_leap_def Let_def)

section \<open>Holiday exclusion\<close>

text \<open>
  Claim C3. For every session with a non-empty list of weeks, the exclusion list is the
  one obtained by enumerating the weeks from the least to the greatest, skipping those
  whose parity disagrees with the pattern, taking the occurrence date of each, and
  collecting, for exactly the dates on which the holiday oracle answers true, the date
  followed by the start clock time of the session's first period, in ascending order of
  the dates. Whenever the run returns a list it is this one; and it returns it when the
  anchor and the occurrence dates lie in the range of \<open>datetime\<close>, the oracle answers
  on the date of every candidate week and, if some date is a holiday, the first period is
  one of the ten periods.
\<close>

theorem exclusion_set_enumeration:
  assumes "weeks \<noteq> []"
  shows "(\<forall>xs. session_exclude_dates is_holiday anchor day sec0 weeks = Inr xs \<longrightarrow>
            xs = exclusion_spec is_holiday anchor day sec0 weeks)
       \<and> (1 \<le> anchor \<and> anchor \<le> 3652059
            \<and> 1 \<le> occurrence_date anchor day (Min (set weeks))
            \<and> occurrence_date anchor day (Max (set weeks)) \<le> 3652059
            \<and> (\<forall>w \<in> set (candidate_weeks weeks).
                  \<exists>b. is_holiday (occurrence_date anchor day w) = Inr b)
            \<and> (excluded_weeks is_holiday anchor day weeks = [] \<or> (1 \<le> sec0 \<and> sec0 \<le> 10))
          \<longrightarrow> session_exclude_dates is_holiday anchor day sec0 weeks
                = Inr (exclusion_spec is_holiday anchor day sec0 weeks))
       \<and> sorted_wrt (<) (map (occurrence_date anchor day) (excluded_weeks is_holiday anchor day weeks))"
proof (intro conjI allI impI)
  fix xs assume "session_exclude_dates is_holiday anchor day sec0 weeks = Inr xs"
  with assms show "xs = exclusion_spec is_holiday anchor day sec0 weeks"
    by (rule session_exclude_dates_Inr)
next
  assume "1 \<le> anchor \<and> anchor \<le> 3652059
            \<and> 1 \<le> occurrence_date anchor day (Min (set weeks))
            \<and> occurrence_date anchor day (Max (set weeks)) \<le> 3652059
            \<and> (\<forall>w \<in> set (candidate_weeks weeks).
                  \<exists>b. is_holiday (occurrence_date anchor day w) = Inr b)
            \<and> (excluded_weeks is_holiday anchor day weeks = [] \<or> (1 \<le> sec0 \<and> sec0 \<le> 10))"
  with assms show "session_exclude_dates is_holiday anchor day sec0 weeks
                = Inr (exclusion_spec is_holiday anchor day sec0 weeks)"
    by (intro session_exclude_dates_total) simp_all
next
  show "sorted_wrt (<) (map (occurrence_date anchor day) (excluded_weeks is_holiday anchor day weeks))"
    by (rule excluded_weeks_ascending)
qed

text \<open>
  Fridays from the anchor 2023-09-04, with 2023-09-29 (week 4) and 2023-10-06 (week 5) as
  holidays. For the odd weeks 3 and 5 and first period 5, week 4 is skipped and the list
  is the stamp of 2023-10-06 at 13:30; for the weeks 3, 4, 5 and first period 10, both
  dates are listed at 18:50, the earlier first.
\<close>

theorem exclusion_set_enumeration_witness:
  "session_exclude_dates holidays_2023 738767 5 5 [3, 5] = Inr [''20231006T133000'']
   \<and> session_exclude_dates holidays_2023 738767 5 10 [3, 4, 5]
       = Inr [''20230929T185000'', ''20231006T185000'']"
proof -
  have a: "(1::int) \<le> 738767" "(738767::int) \<le> 3652059"
    by simp_all
  have ans: "\<And>ws. \<forall>w \<in> set (candidate_weeks ws).
                \<exists>b. holidays_2023 (occurrence_date 738767 5 w) = Inr b"
    by (simp add: holidays_2023_answers)
  have r1: "1 \<le> occurrence_date 738767 5 (Min (set [3, 5]))"
    "occurrence_date 738767 5 (Max (set [3, 5])) \<le> 3652059"
    by (simp_all add: occurrence_date_def)
  have r2: "1 \<le> occurrence_date 738767 5 (Min (set [3, 4, 5]))"
    "occurrence_date 738767 5 (Max (set [3, 4, 5])) \<le> 3652059"
    by (simp_all add: occurrence_date_def)
  have p1: "excluded_weeks holidays_2023 738767 5 [3, 5] = [] \<or> (1 \<le> (5::int) \<and> (5::int) \<le> 10)"
    by simp
  have p2: "excluded_weeks holidays_2023 738767 5 [3, 4, 5] = [] \<or> (1 \<le> (10::int) \<and> (10::int) \<le> 10)"
    by simp
  have ne1: "[3, 5 :: int] \<noteq> []" and ne2: "[3, 4, 5 :: int] \<noteq> []"
    by simp_all
  have "session_exclude_dates holidays_2023 738767 5 5 [3, 5]
          = Inr (exclusion_spec holidays_2023 738767 5 5 [3, 5])"
    by (rule exclusion_set_enumeration [OF ne1, THEN conjunct2, THEN conjunct1, THEN mp])
       (intro conjI a r1 ans p1)
  moreover have "session_exclude_dates holidays_2023 738767 5 10 [3, 4, 5]
          = Inr (exclusion_spec holidays_2023 738767 5 10 [3, 4, 5])"
    by (rule exclusion_set_enumeration [OF ne2, THEN conjunct2, THEN conjunct1, THEN mp])
       (intro conjI a r2 ans p2)
  ultimately show ?thesis
    by (simp only: exclusion_spec_35 exclusion_spec_345)
qed

text \<open>
  Claim C9, as amended. The exclusion set is monotonic in the week range as long as the
  larger range can be computed: when the range of weeks is enlarged (the least week
  decreases or the greatest increases) with the same pattern, the anchor and the dates of
  the larger range lie in the range of \<open>datetime\<close>, and the holiday oracle answers on
  the date of every candidate week of the larger range, every exclusion date produced for
  the smaller range is produced for the larger range.
\<close>

theorem exclusion_monotone:
  assumes "weeks \<noteq> []" and "weeks' \<noteq> []"
    and "Min (set weeks') \<le> Min (set weeks)" and "Max (set weeks) \<le> Max (set weeks')"
    and "week_status weeks' = week_status weeks"
    and "1 \<le> anchor" and "anchor \<le> 3652059"
    and "1 \<le> occurrence_date anchor day (Min (set weeks'))"
    and "occurrence_date anchor day (Max (set weeks')) \<le> 3652059"
    and "\<forall>w \<in> set (candidate_weeks weeks'). \<exists>b. is_holiday (occurrence_date anchor day w) = Inr b"
    and "session_exclude_dates is_holiday anchor day sec0 weeks = Inr xs"
    and "x \<in> set xs"
  shows "\<exists>ys. session_exclude_dates is_holiday anchor day sec0 weeks' = Inr ys \<and> x \<in> set ys"
proof -
  have xs: "xs = exclusion_spec is_holiday anchor day sec0 weeks"
    using assms(1,11) by (rule session_exclude_dates_Inr)
  with assms(12) have ne: "excluded_weeks is_holiday anchor day weeks \<noteq> []"
    by (auto simp: exclusion_spec_def)
  have lk: "1 \<le> sec0 \<and> sec0 \<le> 10"
    using assms(1,11) ne by (rule session_exclude_dates_lookup)
  have sub: "set (excluded_weeks is_holiday anchor day weeks)
               \<subseteq> set (excluded_weeks is_holiday anchor day weeks')"
    using assms(3,4,5) by (rule excluded_weeks_mono)
  have "session_exclude_dates is_holiday anchor day sec0 weeks'
          = Inr (exclusion_spec is_holiday anchor day sec0 weeks')"
    using assms(2,6,7,8,9,10) lk by (intro session_exclude_dates_total) simp_all
  moreover have "x \<in> set (exclusion_spec is_holiday anchor day sec0 weeks')"
    using assms(12) xs sub by (auto simp: exclusion_spec_def)
  ultimately show ?thesis by blast
qed

text \<open>
  The odd weeks 3, 5 enlarged to the odd weeks 1, 3, 5, 7, on Fridays with first period 5:
  2023-10-06 stays excluded.
\<close>

theorem exclusion_monotone_witness:
  "session_exclude_dates holidays_2023 738767 5 5 [3, 5] = Inr [''20231006T133000'']
   \<and> (\<exists>ys. session_exclude_dates holidays_2023 738767 5 5 [1, 3, 5, 7] = Inr ys
          \<and> ''20231006T133000'' \<in> set ys)"
proof -
  have st: "week_status [1, 3, 5, 7] = week_status [3, 5]"
    by (simp add: week_status_def)
  have a: "(1::int) \<le> 738767" "(738767::int) \<le> 3652059"
    by simp_all
  have rng: "1 \<le> occurrence_date 738767 5 (Min (set [1, 3, 5, 7]))"
    "occurrence_date 738767 5 (Max (set [1, 3, 5, 7])) \<le> 3652059"
    by (simp_all add: occurrence_date_def)
  have ans: "\<forall>w \<in> set (candidate_weeks [1, 3, 5, 7]).
               \<exists>b. holidays_2023 (occurrence_date 738767 5 w) = Inr b"
    by (simp add: holidays_2023_answers)
  have ne: "[3, 5 :: int] \<noteq> []" "[1, 3, 5, 7 :: int] \<noteq> []" by simp_all
  have mm: "Min (set [1, 3, 5, 7 :: int]) \<le> Min (set [3, 5])"
    "Max (set [3, 5 :: int]) \<le> Max (set [1, 3, 5, 7])" by simp_all
  have mem: "''20231006T133000'' \<in> set [''20231006T133000'']" by simp
  have "\<exists>ys. session_exclude_dates holidays_2023 738767 5 5 [1, 3, 5, 7] = Inr ys
          \<and> ''20231006T133000'' \<in> set ys"
    by (rule exclusion_monotone [OF ne mm st a rng ans session_35 mem])
  with session_35 show ?thesis by (rule conjI)
qed

text \<open>
  Without these provisos an enlargement can lose an exclusion date. From the anchor
  9999-12-24 (day 3652052), week 1 is excluded for the weeks 1 alone, and the run on the
  weeks 1, 3 raises \<open>OverflowError\<close> at week 3. From the anchor 2026-09-07 (day 739866)
  on Thursdays, 2026-10-01 is excluded for the weeks 4, 5, and the run on the weeks 4, 5,
  18 raises \<open>NotImplementedError\<close> when it asks the oracle about 2027-01-07.
\<close>

theorem exclusion_monotone_counterexample:
  "session_exclude_dates holiday_every_day 3652052 1 1 [1] = Inr [''99991224T080000'']
   \<and> Min (set [1, 3 :: int]) \<le> Min (set [1]) \<and> Max (set [1 :: int]) \<le> Max (set [1, 3])
   \<and> week_status [1, 3] = week_status [1]
   \<and> session_exclude_dates holiday_every_day 3652052 1 1 [1, 3] = Inl OverflowError
   \<and> session_exclude_dates holidays_to_2026 739866 4 1 [4, 5] = Inr [''20261001T080000'']
   \<and> Min (set [4, 5, 18 :: int]) \<le> Min (set [4, 5]) \<and> Max (set [4, 5 :: int]) \<le> Max (set [4, 5, 18])
   \<and> week_status [4, 5, 18] = week_status [4, 5]
   \<and> session_exclude_dates holidays_to_2026 739866 4 1 [4, 5, 18] = Inl NotImplementedError"
  by (simp add: session_overflow_small session_overflow_large session_2026_small
        session_2026_large week_status_def)

section \<open>The location of an event\<close>

text \<open>
  Claim C5, as amended. For every course, the record of the structured export holds the
  position with each newline rewritten to a dash, so that it has no newline; and the
  calendar, which is generated from the export, writes this same dash-separated position
  in the LOCATION line of the event block.
\<close>

theorem location_field:
  "j_position (format_course c)
     = map (\<lambda>ch. if ch = CHR 0x0A then CHR ''-'' else ch) (c_position c)
   \<and> CHR 0x0A \<notin> set (j_position (format_course c))
   \<and> (\<forall>ev n'. course_event uid utc_now is_holiday initial_time alarm_minutes (format_course c) n
                 = Inr (ev, n') \<longrightarrow>
        (\<exists>rest. ev = ''BEGIN:VEVENT'' @ [CHR 0x0A] @ ''CREATED:'' @ utc_now @ [CHR 0x0A]
            @ ''DTSTAMP:'' @ utc_now @ [CHR 0x0A] @ ''SUMMARY:'' @ c_name c @ [CHR 0x0A]
            @ ''DESCRIPTION:'' @ jiaoshi @ c_teacher c @ [CHR 0x0A]
            @ ''LOCATION:'' @ map (\<lambda>ch. if ch = CHR 0x0A then CHR ''-'' else ch) (c_position c)
            @ [CHR 0x0A] @ ''TZID:Asia/Shanghai'' @ [CHR 0x0A] @ rest))"
proof (intro conjI allI impI)
  show p: "j_position (format_course c)
     = map (\<lambda>ch. if ch = CHR 0x0A then CHR ''-'' else ch) (c_position c)"
    by (simp only: j_position_format replace_newline)
  show "CHR 0x0A \<notin> set (j_position (format_course c))"
    unfolding p by auto
  fix ev n'
  assume "course_event uid utc_now is_holiday initial_time alarm_minutes (format_course c) n
            = Inr (ev, n')"
  from course_event_location [OF this]
  show "\<exists>rest. ev = ''BEGIN:VEVENT'' @ [CHR 0x0A] @ ''CREATED:'' @ utc_now @ [CHR 0x0A]
            @ ''DTSTAMP:'' @ utc_now @ [CHR 0x0A] @ ''SUMMARY:'' @ c_name c @ [CHR 0x0A]
            @ ''DESCRIPTION:'' @ jiaoshi @ c_teacher c @ [CHR 0x0A]
            @ ''LOCATION:'' @ map (\<lambda>ch. if ch = CHR 0x0A then CHR ''-'' else ch) (c_position c)
            @ [CHR 0x0A] @ ''TZID:Asia/Shanghai'' @ [CHR 0x0A] @ rest"
    unfolding p [symmetric] by (simp add: format_course_def Let_def)
qed

text \<open>
  The example course, whose position is \<open>Gym\<close>, a newline and \<open>101\<close>, with a
  reminder 30 minutes ahead: the export and the LOCATION line both read \<open>Gym-101\<close>.
\<close>

theorem location_field_witness:
  "j_position (format_course example_course) = ''Gym-101''
   \<and> (\<exists>rest. course_event example_uid ''20230901T000000Z'' holidays_2023 738767 30
                (format_course example_course) 0
         = Inr (''BEGIN:VEVENT'' @ [CHR 0x0A] @ ''CREATED:20230901T000000Z'' @ [CHR 0x0A]
            @ ''DTSTAMP:20230901T000000Z'' @ [CHR 0x0A] @ ''SUMMARY:PE'' @ [CHR 0x0A]
            @ ''DESCRIPTION:'' @ jiaoshi @ ''Li'' @ [CHR 0x0A]
            @ ''LOCATION:Gym-101'' @ [CHR 0x0A] @ ''TZID:Asia/Shanghai'' @ [CHR 0x0A] @ rest, 3))"
proof -
  have "\<exists>ev. course_event example_uid ''20230901T000000Z'' holidays_2023 738767 30
                (format_course example_course) 0 = Inr (ev, 3)"
    by (simp add: course_event_def Let_def example_fields example_first example_exclude
        week_status_def start_week_def end_week_def extra_status_def timetable_lookup_1
        timetable_lookup_2 date_add_explicit a_trigger_def)
  then obtain ev where ev: "course_event example_uid ''20230901T000000Z'' holidays_2023 738767 30
                (format_course example_course) 0 = Inr (ev, 3)" ..
  from location_field [of example_course example_uid "''20230901T000000Z''" holidays_2023 738767 30 0]
  have pos: "j_position (format_course example_course)
     = map (\<lambda>ch. if ch = CHR 0x0A then CHR ''-'' else ch) (c_position example_course)"
    and loc: "\<exists>rest. ev = ''BEGIN:VEVENT'' @ [CHR 0x0A] @ ''CREATED:'' @ ''20230901T000000Z'' @ [CHR 0x0A]
            @ ''DTSTAMP:'' @ ''20230901T000000Z'' @ [CHR 0x0A] @ ''SUMMARY:'' @ c_name example_course @ [CHR 0x0A]
            @ ''DESCRIPTION:'' @ jiaoshi @ c_teacher example_course @ [CHR 0x0A]
            @ ''LOCATION:'' @ map (\<lambda>ch. if ch = CHR 0x0A then CHR ''-'' else ch) (c_position example_course)
            @ [CHR 0x0A] @ ''TZID:Asia/Shanghai'' @ [CHR 0x0A] @ rest"
    using ev by blast+
  from pos have "j_position (format_course example_course) = ''Gym-101''"
    by (simp add: example_course_def nl_def)
  moreover from loc ev have "\<exists>rest. course_event example_uid ''20230901T000000Z'' holidays_2023 738767 30
                (format_course example_course) 0
         = Inr (''BEGIN:VEVENT'' @ [CHR 0x0A] @ ''CREATED:20230901T000000Z'' @ [CHR 0x0A]
            @ ''DTSTAMP:20230901T000000Z'' @ [CHR 0x0A] @ ''SUMMARY:PE'' @ [CHR 0x0A]
            @ ''DESCRIPTION:'' @ jiaoshi @ ''Li'' @ [CHR 0x0A]
            @ ''LOCATION:Gym-101'' @ [CHR 0x0A] @ ''TZID:Asia/Shanghai'' @ [CHR 0x0A] @ rest, 3)"
    by (auto simp: example_course_def nl_def)
  ultimately show ?thesis by (rule conjI)
qed

text \<open>
  The position of the example course holds a newline, and the calendar generated from its
  export has the line \<open>LOCATION:Gym-101\<close>: the newline is not preserved.
\<close>

theorem location_field_counterexample:
  "c_position example_course = ''Gym'' @ [CHR 0x0A] @ ''101''
   \<and> generate_ics_from_json example_uid ''20230901T000000Z'' holidays_2023
     (save_courses_to_json [example_course]) 738767 0
     = \<lparr>file_content = Some (ical_begin_base @
         ''BEGIN:VEVENT'' @ nl @
         ''CREATED:20230901T000000Z'' @ nl @
         ''DTSTAMP:20230901T000000Z'' @ nl @
         ''SUMMARY:PE'' @ nl @
         ''DESCRIPTION:'' @ jiaoshi @ ''Li'' @ nl @
         ''LOCATION:Gym-101'' @ nl @
         ''TZID:Asia/Shanghai'' @ nl @
         ''SEQUENCE:0'' @ nl @
         ''UID:uid0'' @ nl @
         ''RRULE:FREQ=WEEKLY;UNTIL=20230912T000000Z;INTERVAL=1'' @ nl @
         ''DTSTART;TZID=Asia/Shanghai:20230904T080000'' @ nl @
         ''DTEND;TZID=Asia/Shanghai:20230904T093000'' @ nl @
         ''X-APPLE-TRAVEL-ADVISORY-BEHAVIOR:AUTOMATIC'' @ nl @
         ''END:VEVENT'' @ nl @ ical_end),
        returned = Some (kebiao @ ''-20230901T000000Z.ics'')\<rparr>"
proof
  show "c_position example_course = ''Gym'' @ [CHR 0x0A] @ ''101''"
    by (simp add: example_course_def nl_def)
qed (simp add: example_generate example_event_def example_uid_def digits.simps digit_char_def)

section \<open>A period outside the timetable\<close>

text \<open>
  Claim C4, as amended. When the sessions before have been written and a session with a
  non-empty list of weeks has a first or last period that is not one of the ten periods of
  the timetable, the run stops at that session and returns no file name; the output file,
  opened before the first session, is left with the header and the event blocks of the
  sessions before, and without the footer: a truncated document. (A session with no weeks
  is skipped before its periods are looked up.)
\<close>

theorem period_lookup_abort:
  assumes "write_courses uid utc_now is_holiday initial_time alarm_minutes before ical_begin_base 0
             = (f, Inr n)"
    and "j_weeks_array course \<noteq> []"
    and "\<not> (1 \<le> fst (j_section_array course) \<and> fst (j_section_array course) \<le> 10)
         \<or> \<not> (1 \<le> snd (j_section_array course) \<and> snd (j_section_array course) \<le> 10)"
  shows "generate_ics_from_json uid utc_now is_holiday (before @ course # after) initial_time
             alarm_minutes
           = \<lparr>file_content = Some f, returned = None\<rparr>
       \<and> (\<exists>events. f = ical_begin_base @ events)
       \<and> \<not> (\<exists>p. f = p @ ical_end)"
proof -
  from course_event_bad_period [OF assms(3)]
  obtain e where e: "course_event uid utc_now is_holiday initial_time alarm_minutes course n = Inl e"
    by blast
  have "write_courses uid utc_now is_holiday initial_time alarm_minutes (before @ course # after)
          ical_begin_base 0 = (f, Inl e)"
    using assms(1,2) e by (simp add: write_courses_append)
  then have run: "generate_ics_from_json uid utc_now is_holiday (before @ course # after) initial_time
             alarm_minutes = \<lparr>file_content = Some f, returned = None\<rparr>"
    by (simp add: generate_ics_from_json_def)
  from write_courses_shape [OF assms(1)] obtain events where
    ev: "f = ical_begin_base @ events" "events = [] \<or> last events = CHR 0x0A" by blast
  from run ev no_footer [OF ev] show ?thesis by blast
qed

text \<open>
  The example course, then the same course in periods 11 and 12, then the example course
  again: the file is left with the header and the first event, and nothing is returned.
\<close>

theorem period_lookup_abort_witness:
  "generate_ics_from_json example_uid ''20230901T000000Z'' holidays_2023
     ([format_course example_course] @ format_course (example_course\<lparr>c_sections := (11, 12)\<rparr>)
        # [format_course example_course]) 738767 0
     = \<lparr>file_content = Some (ical_begin_base @ example_event ''uid0''), returned = None\<rparr>"
proof -
  have "\<not> (1 \<le> fst (j_section_array (format_course (example_course\<lparr>c_sections := (11, 12)\<rparr>)))
           \<and> fst (j_section_array (format_course (example_course\<lparr>c_sections := (11, 12)\<rparr>))) \<le> 10)
      \<or> \<not> (1 \<le> snd (j_section_array (format_course (example_course\<lparr>c_sections := (11, 12)\<rparr>)))
           \<and> snd (j_section_array (format_course (example_course\<lparr>c_sections := (11, 12)\<rparr>))) \<le> 10)"
    by (simp add: bad_fields)
  moreover have "j_weeks_array (format_course (example_course\<lparr>c_sections := (11, 12)\<rparr>)) \<noteq> []"
    by (simp add: bad_fields)
  ultimately show ?thesis
    using period_lookup_abort [OF example_write [of ical_begin_base 0]]
    by (simp add: example_uid_def digits.simps digit_char_def)
qed

text \<open>
  A calendar of the single course in periods 11 and 12: the run returns nothing and leaves
  a file that holds the header alone, a document without its footer. The same course with
  no weeks is skipped, and the run completes.
\<close>

theorem period_lookup_abort_counterexample:
  "generate_ics_from_json example_uid ''20230901T000000Z'' holidays_2023
     [format_course (example_course\<lparr>c_sections := (11, 12)\<rparr>)] 738767 0
     = \<lparr>file_content = Some ical_begin_base, returned = None\<rparr>
   \<and> generate_ics_from_json example_uid ''20230901T000000Z'' holidays_2023
     [format_course (example_course\<lparr>c_weeks := [], c_sections := (11, 12)\<rparr>)] 738767 0
     = \<lparr>file_content = Some (ical_begin_base @ ical_end),
        returned = Some (kebiao @ ''-20230901T000000Z.ics'')\<rparr>"
proof
  have "\<exists>e. course_event example_uid ''20230901T000000Z'' holidays_2023 738767 0
     (format_course (example_course\<lparr>c_sections := (11, 12)\<rparr>)) 0 = Inl e"
    by (rule course_event_bad_period) (simp add: bad_fields)
  then show "generate_ics_from_json example_uid ''20230901T000000Z'' holidays_2023
     [format_course (example_course\<lparr>c_sections := (11, 12)\<rparr>)] 738767 0
     = \<lparr>file_content = Some ical_begin_base, returned = None\<rparr>"
    by (auto simp: generate_ics_from_json_def bad_fields)
next
  have "j_weeks_array (format_course (example_course\<lparr>c_weeks := [], c_sections := (11, 12)\<rparr>)) = []"
    by (simp add: format_course_def example_course_def Let_def)
  then show "generate_ics_from_json example_uid ''20230901T000000Z'' holidays_2023
     [format_course (example_course\<lparr>c_weeks := [], c_sections := (11, 12)\<rparr>)] 738767 0
     = \<lparr>file_content = Some (ical_begin_base @ ical_end),
        returned = Some (kebiao @ ''-20230901T000000Z.ics'')\<rparr>"
    by (simp add: generate_ics_from_json_def)
qed

end
